theory Spec2Isabelle
  imports Main "HOL-Library.AList"
begin

section \<open>Python values and exceptions\<close>

text \<open>
  A byte is a \<^typ>\<open>char\<close>; Python \<open>bytes\<close> is a list of them. A Python \<open>str\<close> is
  represented by its UTF-8 encoding, so \<open>s.encode('utf-8')\<close> is the identity and
  \<open>b.decode('utf-8')\<close> succeeds exactly on well-formed UTF-8 and is the identity there.
\<close>

type_synonym bytes = string

text \<open>
  The exceptions the serializers can raise. \<open>PreconditionFailed\<close> is what
  \<open>Precondition.not_empty\<close> raises, \<open>UnpackError\<close> what \<open>msgpack.unpackb\<close> raises on
  bytes that are not one complete MessagePack object, \<open>InvalidOperation\<close> what
  \<open>Decimal(s)\<close> raises on a string that is not a number. \<open>ValueError\<close> carries the
  message of the \<open>raise ValueError(...)\<close> statement.
\<close>

datatype error =
    PreconditionFailed string
  | ValueError string
  | KeyError string
  | TypeError
  | AttributeError
  | UnicodeDecodeError
  | OverflowError
  | InvalidOperation
  | UnpackError string

definition bind :: "error + 'a \<Rightarrow> ('a \<Rightarrow> error + 'b) \<Rightarrow> error + 'b" where
  "bind m f = (case m of Inl e \<Rightarrow> Inl e | Inr x \<Rightarrow> f x)"

datatype pyfloat = Float32 bytes | Float64 bytes

text \<open>
  The objects \<open>msgpack.unpackb\<close> can return. A \<open>dict\<close> is the list of its items in
  insertion order, with distinct keys. A float is kept as the IEEE-754 bytes it was read
  from; the serializers never look inside one.
\<close>

datatype pyobj =
    PNone
  | PBool bool
  | PInt int
  | PFloat pyfloat
  | PStr string
  | PBytes bytes
  | PList "pyobj list"
  | PDict "(pyobj \<times> pyobj) list"
  | PExt int bytes

type_synonym dict = "(pyobj \<times> pyobj) list"

fun hashable :: "pyobj \<Rightarrow> bool" where
  "hashable (PList _) = False"
| "hashable (PDict _) = False"
| "hashable _ = True"

text \<open>\<open>d[k]\<close> for a \<open>str\<close> key: \<open>KeyError\<close> when the key is absent.\<close>

definition getitem :: "dict \<Rightarrow> string \<Rightarrow> error + pyobj" where
  "getitem d k = (case map_of d (PStr k) of None \<Rightarrow> Inl (KeyError k) | Some v \<Rightarrow> Inr v)"

subsection \<open>UTF-8\<close>

fun cont :: "char \<Rightarrow> bool" where
  "cont c = (0x80 \<le> (of_char c :: nat) \<and> (of_char c :: nat) < 0xC0)"

text \<open>Well-formed UTF-8: shortest forms only, no surrogates, nothing above U+10FFFF.\<close>

fun utf8_valid :: "bytes \<Rightarrow> bool" where
  "utf8_valid [] = True"
| "utf8_valid (a # bs) = (let x = (of_char a :: nat) in
     if x < 0x80 then utf8_valid bs
     else if 0xC2 \<le> x \<and> x < 0xE0 then
       (case bs of b # r \<Rightarrow> cont b \<and> utf8_valid r | _ \<Rightarrow> False)
     else if 0xE0 \<le> x \<and> x < 0xF0 then
       (case bs of b # c # r \<Rightarrow>
          cont b \<and> cont c \<and> (x = 0xE0 \<longrightarrow> 0xA0 \<le> (of_char b :: nat))
          \<and> (x = 0xED \<longrightarrow> (of_char b :: nat) < 0xA0) \<and> utf8_valid r
        | _ \<Rightarrow> False)
     else if 0xF0 \<le> x \<and> x < 0xF5 then
       (case bs of b # c # d # r \<Rightarrow>
          cont b \<and> cont c \<and> cont d \<and> (x = 0xF0 \<longrightarrow> 0x90 \<le> (of_char b :: nat))
          \<and> (x = 0xF4 \<longrightarrow> (of_char b :: nat) < 0x90) \<and> utf8_valid r
        | _ \<Rightarrow> False)
     else False)"

section \<open>MessagePack\<close>

text \<open>
  \<open>msgpack.packb\<close> and \<open>msgpack.unpackb\<close> as the serializers call them: \<open>packb\<close> with
  its defaults of the code's time (\<open>use_bin_type\<close> off, so \<open>str\<close> and \<open>bytes\<close> both go
  out in the raw family and \<open>str8\<close> is never written), \<open>unpackb\<close> with \<open>raw=True\<close> (the
  default, raw values come back as \<open>bytes\<close>) or \<open>raw=False\<close> (raw values are UTF-8
  decoded to \<open>str\<close>).
\<close>

subsection \<open>Big-endian numbers\<close>

fun be_nat :: "bytes \<Rightarrow> nat" where
  "be_nat bs = foldl (\<lambda>a c. a * 256 + of_char c) 0 bs"

fun be_bytes :: "nat \<Rightarrow> nat \<Rightarrow> bytes" where
  "be_bytes 0 n = []"
| "be_bytes (Suc k) n = be_bytes k (n div 256) @ [char_of (n mod 256)]"

definition be_int :: "bytes \<Rightarrow> int" where
  "be_int bs = (let u = int (be_nat bs); m = 256 ^ length bs in if m \<le> 2 * u then u - m else u)"

subsection \<open>Unpacking\<close>

definition take_bytes :: "nat \<Rightarrow> bytes \<Rightarrow> error + (bytes \<times> bytes)" where
  "take_bytes n bs =
     (if length bs < n then Inl (UnpackError ''incomplete input'') else Inr (take n bs, drop n bs))"

definition read_len :: "nat \<Rightarrow> bytes \<Rightarrow> error + (nat \<times> bytes)" where
  "read_len k bs = bind (take_bytes k bs) (\<lambda>(h, r). Inr (be_nat h, r))"

definition unpack_raw :: "bool \<Rightarrow> nat \<Rightarrow> bytes \<Rightarrow> error + (pyobj \<times> bytes)" where
  "unpack_raw raw n bs = bind (take_bytes n bs) (\<lambda>(s, r).
     if raw then Inr (PBytes s, r)
     else if utf8_valid s then Inr (PStr s, r) else Inl UnicodeDecodeError)"

definition unpack_bin :: "nat \<Rightarrow> bytes \<Rightarrow> error + (pyobj \<times> bytes)" where
  "unpack_bin n bs = bind (take_bytes n bs) (\<lambda>(s, r). Inr (PBytes s, r))"

definition unpack_ext :: "nat \<Rightarrow> bytes \<Rightarrow> error + (pyobj \<times> bytes)" where
  "unpack_ext n bs = bind (take_bytes 1 bs) (\<lambda>(t, r).
     bind (take_bytes n r) (\<lambda>(s, r'). Inr (PExt (be_int t) s, r')))"

definition unpack_uint :: "nat \<Rightarrow> bytes \<Rightarrow> error + (pyobj \<times> bytes)" where
  "unpack_uint k bs = bind (take_bytes k bs) (\<lambda>(h, r). Inr (PInt (int (be_nat h)), r))"

definition unpack_sint :: "nat \<Rightarrow> bytes \<Rightarrow> error + (pyobj \<times> bytes)" where
  "unpack_sint k bs = bind (take_bytes k bs) (\<lambda>(h, r). Inr (PInt (be_int h), r))"

text \<open>
  The first byte of an object decides its format. A scalar is read at once; an array or a
  map announces how many objects follow.
\<close>

datatype head = Scalar pyobj bytes | ArrayOf nat bytes | MapOf nat bytes

definition unpack_head :: "bool \<Rightarrow> bytes \<Rightarrow> error + head" where
  "unpack_head raw bs0 = (case bs0 of [] \<Rightarrow> Inl (UnpackError ''incomplete input'') | c # bs \<Rightarrow>
    (let b = (of_char c :: nat);
         scalar = (\<lambda>m. bind m (\<lambda>(v, r). Inr (Scalar v r))) in
     if b < 0x80 then Inr (Scalar (PInt (int b)) bs)
     else if b < 0x90 then Inr (MapOf (b - 0x80) bs)
     else if b < 0xa0 then Inr (ArrayOf (b - 0x90) bs)
     else if b < 0xc0 then scalar (unpack_raw raw (b - 0xa0) bs)
     else if b = 0xc0 then Inr (Scalar PNone bs)
     else if b = 0xc1 then Inl (UnpackError ''invalid format'')
     else if b = 0xc2 then Inr (Scalar (PBool False) bs)
     else if b = 0xc3 then Inr (Scalar (PBool True) bs)
     else if b < 0xc7 then scalar (bind (read_len (2 ^ (b - 0xc4)) bs) (\<lambda>(n, r). unpack_bin n r))
     else if b < 0xca then scalar (bind (read_len (2 ^ (b - 0xc7)) bs) (\<lambda>(n, r). unpack_ext n r))
     else if b = 0xca then bind (take_bytes 4 bs) (\<lambda>(h, r). Inr (Scalar (PFloat (Float32 h)) r))
     else if b = 0xcb then bind (take_bytes 8 bs) (\<lambda>(h, r). Inr (Scalar (PFloat (Float64 h)) r))
     else if b < 0xd0 then scalar (unpack_uint (2 ^ (b - 0xcc)) bs)
     else if b < 0xd4 then scalar (unpack_sint (2 ^ (b - 0xd0)) bs)
     else if b < 0xd9 then scalar (unpack_ext (2 ^ (b - 0xd4)) bs)
     else if b < 0xdc then scalar (bind (read_len (2 ^ (b - 0xd9)) bs) (\<lambda>(n, r). unpack_raw raw n r))
     else if b < 0xde then bind (read_len (2 ^ (b - 0xdb)) bs) (\<lambda>(n, r). Inr (ArrayOf n r))
     else if b < 0xe0 then bind (read_len (2 ^ (b - 0xdd)) bs) (\<lambda>(n, r). Inr (MapOf n r))
     else Inr (Scalar (PInt (int b - 256)) bs)))"

text \<open>
  The first argument bounds the nesting depth. \<open>unpackb\<close> passes one more than the length
  of the input, which no input can use up: every level of nesting costs a byte.
  A map becomes a \<open>dict\<close>: a later pair with the same key overwrites the value, and a key
  that is a list or a dict is a \<open>TypeError\<close> (unhashable).
\<close>

function (sequential) unpack_obj :: "nat \<Rightarrow> bool \<Rightarrow> bytes \<Rightarrow> error + (pyobj \<times> bytes)"
and unpack_array :: "nat \<Rightarrow> bool \<Rightarrow> nat \<Rightarrow> pyobj list \<Rightarrow> bytes \<Rightarrow> error + (pyobj \<times> bytes)"
and unpack_map :: "nat \<Rightarrow> bool \<Rightarrow> nat \<Rightarrow> dict \<Rightarrow> bytes \<Rightarrow> error + (pyobj \<times> bytes)"
where
  "unpack_obj 0 raw bs = Inl (UnpackError ''too nested'')"
| "unpack_obj (Suc f) raw bs = bind (unpack_head raw bs) (\<lambda>h. case h of
       Scalar v r \<Rightarrow> Inr (v, r)
     | ArrayOf n r \<Rightarrow> unpack_array f raw n [] r
     | MapOf n r \<Rightarrow> unpack_map f raw n [] r)"
| "unpack_array f raw 0 acc bs = Inr (PList (rev acc), bs)"
| "unpack_array f raw (Suc n) acc bs =
     bind (unpack_obj f raw bs) (\<lambda>(v, r). unpack_array f raw n (v # acc) r)"
| "unpack_map f raw 0 acc bs = Inr (PDict acc, bs)"
| "unpack_map f raw (Suc n) acc bs =
     bind (unpack_obj f raw bs) (\<lambda>(k, r).
     bind (unpack_obj f raw r) (\<lambda>(v, r').
       if hashable k then unpack_map f raw n (AList.update k v acc) r' else Inl TypeError))"
  by pat_completeness auto
termination
  by (relation "inv_image (less_than <*lex*> less_than)
        (\<lambda>x. case x of Inl (f, _) \<Rightarrow> (f, 0)
                  | Inr (Inl (f, _, n, _)) \<Rightarrow> (f, Suc n)
                  | Inr (Inr (f, _, n, _)) \<Rightarrow> (f, Suc n))") auto

definition unpackb :: "bool \<Rightarrow> bytes \<Rightarrow> error + pyobj" where
  "unpackb raw bs = bind (unpack_obj (Suc (length bs)) raw bs) (\<lambda>(v, r).
     if r = [] then Inr v else Inl (UnpackError ''extra data''))"

subsection \<open>Packing\<close>

text \<open>
  A package is the \<open>dict\<close> a serializer builds before it calls \<open>packb\<close>: \<open>str\<close> keys, and
  values that are \<open>int\<close>, \<open>str\<close> or \<open>bytes\<close> (the bytes of a nested order). \<open>package[k] = v\<close>
  is \<^const>\<open>AList.update\<close>, which keeps the insertion order.
\<close>

datatype pkgval = VInt int | VStr string | VBytes bytes

type_synonym package = "(string \<times> pkgval) list"

definition pack_raw :: "bytes \<Rightarrow> error + bytes" where
  "pack_raw s = (let n = length s in
     if n \<le> 0x1f then Inr (char_of (0xa0 + n) # s)
     else if n \<le> 0xffff then Inr (CHR 0xda # be_bytes 2 n @ s)
     else if n \<le> 0xffffffff then Inr (CHR 0xdb # be_bytes 4 n @ s)
     else Inl (ValueError ''Raw is too large''))"

definition pack_int :: "int \<Rightarrow> error + bytes" where
  "pack_int i =
    (if 0 \<le> i \<and> i < 0x80 then Inr [char_of (nat i)]
     else if - 0x20 \<le> i \<and> i < 0 then Inr [char_of (nat (i + 2 ^ 8))]
     else if 0x80 \<le> i \<and> i \<le> 0xff then Inr (CHR 0xcc # be_bytes 1 (nat i))
     else if - 0x80 \<le> i \<and> i < 0 then Inr (CHR 0xd0 # be_bytes 1 (nat (i + 2 ^ 8)))
     else if 0xff < i \<and> i \<le> 0xffff then Inr (CHR 0xcd # be_bytes 2 (nat i))
     else if - 0x8000 \<le> i \<and> i < - 0x80 then Inr (CHR 0xd1 # be_bytes 2 (nat (i + 2 ^ 16)))
     else if 0xffff < i \<and> i \<le> 0xffffffff then Inr (CHR 0xce # be_bytes 4 (nat i))
     else if - 0x80000000 \<le> i \<and> i < - 0x8000 then Inr (CHR 0xd2 # be_bytes 4 (nat (i + 2 ^ 32)))
     else if 0xffffffff < i \<and> i \<le> 0xffffffffffffffff then Inr (CHR 0xcf # be_bytes 8 (nat i))
     else if - 0x8000000000000000 \<le> i \<and> i < - 0x80000000
       then Inr (CHR 0xd3 # be_bytes 8 (nat (i + 2 ^ 64)))
     else Inl OverflowError)"

definition pack_map_header :: "nat \<Rightarrow> error + bytes" where
  "pack_map_header n =
    (if n \<le> 0x0f then Inr [char_of (0x80 + n)]
     else if n \<le> 0xffff then Inr (CHR 0xde # be_bytes 2 n)
     else if n \<le> 0xffffffff then Inr (CHR 0xdf # be_bytes 4 n)
     else Inl (ValueError ''Dict is too large''))"

fun pack_val :: "pkgval \<Rightarrow> error + bytes" where
  "pack_val (VInt i) = pack_int i"
| "pack_val (VStr s) = pack_raw s"
| "pack_val (VBytes b) = pack_raw b"

fun pack_items :: "package \<Rightarrow> error + bytes" where
  "pack_items [] = Inr []"
| "pack_items ((k, v) # kvs) =
     bind (pack_raw k) (\<lambda>a. bind (pack_val v) (\<lambda>b. bind (pack_items kvs) (\<lambda>c. Inr (a @ b @ c))))"

definition packb :: "package \<Rightarrow> error + bytes" where
  "packb package =
     bind (pack_map_header (length package)) (\<lambda>h. bind (pack_items package) (\<lambda>b. Inr (h @ b)))"

text \<open>What \<open>unpackb\<close> makes of a packed item.\<close>

fun unpacked_val :: "bool \<Rightarrow> pkgval \<Rightarrow> pyobj" where
  "unpacked_val raw (VInt i) = PInt i"
| "unpacked_val raw (VStr s) = (if raw then PBytes s else PStr s)"
| "unpacked_val raw (VBytes b) = (if raw then PBytes b else PStr b)"

definition unpacked_item :: "bool \<Rightarrow> string \<times> pkgval \<Rightarrow> pyobj \<times> pyobj" where
  "unpacked_item raw kv = ((if raw then PBytes (fst kv) else PStr (fst kv)), unpacked_val raw (snd kv))"

section \<open>Identifiers and value types\<close>

text \<open>
  Modelled from the spec: the identifier and value classes (\<open>inv_trader.model.identifiers\<close>,
  \<open>inv_trader.model.objects\<close>) are not part of the sources at hand. An identifier is an
  immutable, value-equal wrapper over a string; \<open>x.value\<close> is the selector. A \<open>Quantity\<close> wraps an
  integer. \<open>Price\<close>, \<open>Money\<close> and \<open>Decimal\<close> are decimal-exact: each is represented by its exact
  decimal string, which is what \<open>str(x)\<close> returns, so \<open>1.10000\<close> and \<open>1.1\<close> are different
  values. A \<open>datetime\<close> is represented by its fixed-format timestamp string.
\<close>

datatype GUID = GUID (guid_value: string)
datatype ValidString = ValidString (valid_string_value: string)
datatype Label = Label (label_value: string)
datatype Symbol = Symbol (symbol_value: string)
datatype OrderId = OrderId (order_id_value: string)
datatype TraderId = TraderId (trader_id_value: string)
datatype StrategyId = StrategyId (strategy_id_value: string)
datatype PositionId = PositionId (position_id_value: string)
datatype ExecutionId = ExecutionId (execution_id_value: string)
datatype ExecutionTicket = ExecutionTicket (execution_ticket_value: string)
datatype AccountId = AccountId (account_id_value: string)
datatype AccountNumber = AccountNumber (account_number_value: string)
datatype InstrumentId = InstrumentId (instrument_id_value: string)
datatype Quantity = Quantity (quantity_value: int)
datatype Price = Price (price_str: string)
datatype Money = Money (money_str: string)
datatype Decimal = Decimal (decimal_str: string)
datatype datetime = Datetime (datetime_str: string)

text \<open>
  Modelled from the spec: the enumerations and their string tables
  (\<open>inv_trader.enums\<close>, \<open>inv_trader.model.enums\<close>) are not part of the sources at hand. Each
  variant has exactly one canonical name and each name exactly one variant, so a variant is
  represented by its name: \<open>order_side_string\<close> and its siblings are the selectors. Which
  names exist is a parameter, the record \<open>enums\<close>; \<open>OrderSide[name]\<close> is a \<open>KeyError\<close> for
  a name that is not in the table.
\<close>

datatype OrderSide = OrderSide (order_side_string: string)
datatype OrderType = OrderType (order_type_string: string)
datatype TimeInForce = TimeInForce (time_in_force_string: string)
datatype Currency = Currency (currency_string: string)
datatype Broker = Broker (broker_string: string)
datatype SecurityType = SecurityType (security_type_string: string)

record enums =
  order_sides :: "string list"
  order_types :: "string list"
  times_in_force :: "string list"
  currencies :: "string list"
  brokers :: "string list"
  security_types :: "string list"

text \<open>
  An argument of a constructor or helper that is declared \<open>str\<close> or \<open>int\<close>: anything else
  is a \<open>TypeError\<close>.
\<close>

fun str_arg :: "pyobj \<Rightarrow> error + string" where
  "str_arg (PStr s) = Inr s"
| "str_arg _ = Inl TypeError"

fun int_arg :: "pyobj \<Rightarrow> error + int" where
  "int_arg (PInt i) = Inr i"
| "int_arg _ = Inl TypeError"

definition new :: "(string \<Rightarrow> 'a) \<Rightarrow> pyobj \<Rightarrow> error + 'a" where
  "new C v = bind (str_arg v) (\<lambda>s. Inr (C s))"

definition new_Quantity :: "pyobj \<Rightarrow> error + Quantity" where
  "new_Quantity v = bind (int_arg v) (\<lambda>i. Inr (Quantity i))"

definition enum_getitem :: "string list \<Rightarrow> (string \<Rightarrow> 'a) \<Rightarrow> pyobj \<Rightarrow> error + 'a" where
  "enum_getitem names C v =
     bind (str_arg v) (\<lambda>s. if s \<in> set names then Inr (C s) else Inl (KeyError s))"

text \<open>
  Patterns for the fixed-format strings: in a pattern, \<open>d\<close> stands for a decimal digit and
  \<open>h\<close> for a hexadecimal digit; every other character stands for itself.
\<close>

definition is_digit :: "char \<Rightarrow> bool" where
  "is_digit c = (48 \<le> (of_char c :: nat) \<and> (of_char c :: nat) \<le> 57)"

definition is_hex :: "char \<Rightarrow> bool" where
  "is_hex c = (is_digit c \<or> (97 \<le> (of_char c :: nat) \<and> (of_char c :: nat) \<le> 102)
     \<or> (65 \<le> (of_char c :: nat) \<and> (of_char c :: nat) \<le> 70))"

fun matches :: "string \<Rightarrow> string \<Rightarrow> bool" where
  "matches [] [] = True"
| "matches (p # ps) (c # cs) =
     ((if p = CHR ''d'' then is_digit c else if p = CHR ''h'' then is_hex c else p = c)
      \<and> matches ps cs)"
| "matches _ _ = False"

text \<open>
  A decimal numeral: an optional minus sign, digits, and optionally a point and more digits.
  \<open>Decimal(s)\<close> raises \<open>InvalidOperation\<close> on anything that is not a number.
\<close>

fun is_digits :: "string \<Rightarrow> bool" where
  "is_digits s = (s \<noteq> [] \<and> list_all is_digit s)"

definition is_decimal :: "string \<Rightarrow> bool" where
  "is_decimal s =
    (let u = (case s of c # r \<Rightarrow> (if c = CHR ''-'' then r else s) | [] \<Rightarrow> s);
         i = takeWhile (\<lambda>c. c \<noteq> CHR ''.'') u;
         f = dropWhile (\<lambda>c. c \<noteq> CHR ''.'') u
     in is_digits i \<and> (f = [] \<or> is_digits (tl f)))"

definition new_decimal :: "(string \<Rightarrow> 'a) \<Rightarrow> pyobj \<Rightarrow> error + 'a" where
  "new_decimal C v =
     bind (str_arg v) (\<lambda>s. if is_decimal s then Inr (C s) else Inl InvalidOperation)"

text \<open>
  \<open>UUID(s)\<close> accepts the canonical form of 32 hexadecimal digits in five groups and
  normalises it to lower case; \<open>GUID\<close> wraps the result. Anything else is a \<open>ValueError\<close>.
\<close>

definition lower :: "char \<Rightarrow> char" where
  "lower c = (if 65 \<le> (of_char c :: nat) \<and> (of_char c :: nat) \<le> 90
              then char_of ((of_char c :: nat) + 32) else c)"

definition is_uuid :: "string \<Rightarrow> bool" where
  "is_uuid s = matches ''hhhhhhhh-hhhh-hhhh-hhhh-hhhhhhhhhhhh'' s"

definition UUID :: "pyobj \<Rightarrow> error + string" where
  "UUID v = bind (str_arg v) (\<lambda>s.
     if is_uuid s then Inr (map lower s)
     else Inl (ValueError ''badly formed hexadecimal UUID string''))"

definition new_GUID :: "pyobj \<Rightarrow> error + GUID" where
  "new_GUID v = bind (UUID v) (\<lambda>u. Inr (GUID u))"

subsection \<open>Helpers of the common serialization module\<close>

abbreviation NONE :: string where "NONE \<equiv> ''NONE''"

text \<open>
  Modelled from the spec: \<open>Precondition.not_empty\<close> (\<open>inv_trader.core.precondition\<close>) is not
  part of the sources at hand. Empty input is a precondition violation, rejected before any
  parsing begins.
\<close>

definition Precondition_not_empty :: "bytes \<Rightarrow> string \<Rightarrow> error + unit" where
  "Precondition_not_empty b param_name =
     (if b = [] then Inl (PreconditionFailed param_name) else Inr ())"

text \<open>
  Modelled from the spec: the conversion helpers of \<open>inv_trader.common.serialization\<close> are not
  part of the sources at hand. An absent optional value (no price, no label, no expire time)
  is written as the string \<open>NONE\<close>, the constant this module declares for it, and read back
  as \<open>None\<close>; a timestamp is written as a fixed-format string (here ISO~8601 in UTC with
  milliseconds) and parsed back to the identical instant; a symbol is written as its value
  and parsed back from it.
\<close>

definition is_timestamp :: "string \<Rightarrow> bool" where
  "is_timestamp s = matches ''dddd-dd-ddTdd:dd:dd.dddZ'' s"

definition convert_datetime_to_string :: "datetime option \<Rightarrow> string" where
  "convert_datetime_to_string t = (case t of None \<Rightarrow> NONE | Some d \<Rightarrow> datetime_str d)"

definition convert_string_to_datetime :: "pyobj \<Rightarrow> error + datetime option" where
  "convert_string_to_datetime v = bind (str_arg v) (\<lambda>s.
     if s = NONE then Inr None
     else if is_timestamp s then Inr (Some (Datetime s))
     else Inl (ValueError ''cannot parse the timestamp''))"

definition convert_price_to_string :: "Price option \<Rightarrow> string" where
  "convert_price_to_string p = (case p of None \<Rightarrow> NONE | Some x \<Rightarrow> price_str x)"

definition convert_string_to_price :: "pyobj \<Rightarrow> error + Price option" where
  "convert_string_to_price v = bind (str_arg v) (\<lambda>s.
     if s = NONE then Inr None else bind (new_decimal Price (PStr s)) (\<lambda>p. Inr (Some p)))"

definition convert_label_to_string :: "Label option \<Rightarrow> string" where
  "convert_label_to_string l = (case l of None \<Rightarrow> NONE | Some x \<Rightarrow> label_value x)"

definition convert_string_to_label :: "pyobj \<Rightarrow> error + Label option" where
  "convert_string_to_label v = bind (str_arg v) (\<lambda>s.
     if s = NONE then Inr None else Inr (Some (Label s)))"

definition parse_symbol :: "pyobj \<Rightarrow> error + Symbol" where
  "parse_symbol v = new Symbol v"

section \<open>The codec layer\<close>

subsection \<open>Field names\<close>

text \<open>The string constants of \<open>serialization.pyx\<close>; \<open>TYPE\<close> is written \<open>TYPE_KEY\<close> here.\<close>

abbreviation TYPE_KEY :: string where "TYPE_KEY \<equiv> ''Type''"
abbreviation ID :: string where "ID \<equiv> ''Id''"
abbreviation COMMAND :: string where "COMMAND \<equiv> ''Command''"
abbreviation COMMAND_ID :: string where "COMMAND_ID \<equiv> ''CommandId''"
abbreviation COMMAND_TIMESTAMP :: string where "COMMAND_TIMESTAMP \<equiv> ''CommandTimestamp''"
abbreviation EVENT :: string where "EVENT \<equiv> ''Event''"
abbreviation EVENT_ID :: string where "EVENT_ID \<equiv> ''EventId''"
abbreviation EVENT_TIMESTAMP :: string where "EVENT_TIMESTAMP \<equiv> ''EventTimestamp''"
abbreviation COLLATERAL_INQUIRY :: string where "COLLATERAL_INQUIRY \<equiv> ''CollateralInquiry''"
abbreviation SUBMIT_ORDER :: string where "SUBMIT_ORDER \<equiv> ''SubmitOrder''"
abbreviation SUBMIT_ATOMIC_ORDER :: string where "SUBMIT_ATOMIC_ORDER \<equiv> ''SubmitAtomicOrder''"
abbreviation CANCEL_ORDER :: string where "CANCEL_ORDER \<equiv> ''CancelOrder''"
abbreviation MODIFY_ORDER :: string where "MODIFY_ORDER \<equiv> ''ModifyOrder''"
abbreviation CANCEL_REASON :: string where "CANCEL_REASON \<equiv> ''CancelReason''"
abbreviation ORDER :: string where "ORDER \<equiv> ''Order''"
abbreviation TIMESTAMP :: string where "TIMESTAMP \<equiv> ''Timestamp''"
abbreviation SYMBOL :: string where "SYMBOL \<equiv> ''Symbol''"
abbreviation ORDER_ID_BROKER :: string where "ORDER_ID_BROKER \<equiv> ''OrderIdBroker''"
abbreviation TRADER_ID :: string where "TRADER_ID \<equiv> ''TraderId''"
abbreviation STRATEGY_ID :: string where "STRATEGY_ID \<equiv> ''StrategyId''"
abbreviation POSITION_ID :: string where "POSITION_ID \<equiv> ''PositionId''"
abbreviation ORDER_ID :: string where "ORDER_ID \<equiv> ''OrderId''"
abbreviation INIT_ID :: string where "INIT_ID \<equiv> ''InitId''"
abbreviation LABEL :: string where "LABEL \<equiv> ''Label''"
abbreviation SUBMITTED_TIME :: string where "SUBMITTED_TIME \<equiv> ''SubmittedTime''"
abbreviation ACCEPTED_TIME :: string where "ACCEPTED_TIME \<equiv> ''AcceptedTime''"
abbreviation REJECTED_TIME :: string where "REJECTED_TIME \<equiv> ''RejectedTime''"
abbreviation REJECTED_RESPONSE :: string where "REJECTED_RESPONSE \<equiv> ''RejectedResponse''"
abbreviation REJECTED_REASON :: string where "REJECTED_REASON \<equiv> ''RejectedReason''"
abbreviation WORKING_TIME :: string where "WORKING_TIME \<equiv> ''WorkingTime''"
abbreviation CANCELLED_TIME :: string where "CANCELLED_TIME \<equiv> ''CancelledTime''"
abbreviation MODIFIED_TIME :: string where "MODIFIED_TIME \<equiv> ''ModifiedTime''"
abbreviation MODIFIED_PRICE :: string where "MODIFIED_PRICE \<equiv> ''ModifiedPrice''"
abbreviation EXPIRE_TIME :: string where "EXPIRE_TIME \<equiv> ''ExpireTime''"
abbreviation EXPIRED_TIME :: string where "EXPIRED_TIME \<equiv> ''ExpiredTime''"
abbreviation EXECUTION_TIME :: string where "EXECUTION_TIME \<equiv> ''ExecutionTime''"
abbreviation EXECUTION_ID :: string where "EXECUTION_ID \<equiv> ''ExecutionId''"
abbreviation EXECUTION_TICKET :: string where "EXECUTION_TICKET \<equiv> ''ExecutionTicket''"
abbreviation ORDER_SIDE :: string where "ORDER_SIDE \<equiv> ''OrderSide''"
abbreviation ORDER_TYPE :: string where "ORDER_TYPE \<equiv> ''OrderType''"
abbreviation ENTRY :: string where "ENTRY \<equiv> ''Entry''"
abbreviation STOP_LOSS :: string where "STOP_LOSS \<equiv> ''StopLoss''"
abbreviation TAKE_PROFIT :: string where "TAKE_PROFIT \<equiv> ''TakeProfit''"
abbreviation FILLED_QUANTITY :: string where "FILLED_QUANTITY \<equiv> ''FilledQuantity''"
abbreviation LEAVES_QUANTITY :: string where "LEAVES_QUANTITY \<equiv> ''LeavesQuantity''"
abbreviation QUANTITY :: string where "QUANTITY \<equiv> ''Quantity''"
abbreviation AVERAGE_PRICE :: string where "AVERAGE_PRICE \<equiv> ''AveragePrice''"
abbreviation PRICE :: string where "PRICE \<equiv> ''Price''"
abbreviation TIME_IN_FORCE :: string where "TIME_IN_FORCE \<equiv> ''TimeInForce''"
abbreviation ACCOUNT_ID :: string where "ACCOUNT_ID \<equiv> ''AccountId''"
abbreviation ACCOUNT_NUMBER :: string where "ACCOUNT_NUMBER \<equiv> ''AccountNumber''"
abbreviation BROKER :: string where "BROKER \<equiv> ''Broker''"
abbreviation CURRENCY :: string where "CURRENCY \<equiv> ''Currency''"
abbreviation CASH_BALANCE :: string where "CASH_BALANCE \<equiv> ''CashBalance''"
abbreviation CASH_START_DAY :: string where "CASH_START_DAY \<equiv> ''CashStartDay''"
abbreviation CASH_ACTIVITY_DAY :: string where "CASH_ACTIVITY_DAY \<equiv> ''CashActivityDay''"
abbreviation MARGIN_USED_LIQUIDATION :: string where "MARGIN_USED_LIQUIDATION \<equiv> ''MarginUsedLiquidation''"
abbreviation MARGIN_USED_MAINTENANCE :: string where "MARGIN_USED_MAINTENANCE \<equiv> ''MarginUsedMaintenance''"
abbreviation MARGIN_RATIO :: string where "MARGIN_RATIO \<equiv> ''MarginRatio''"
abbreviation MARGIN_CALL_STATUS :: string where "MARGIN_CALL_STATUS \<equiv> ''MarginCallStatus''"
abbreviation BROKER_SYMBOL :: string where "BROKER_SYMBOL \<equiv> ''BrokerSymbol''"
abbreviation QUOTE_CURRENCY :: string where "QUOTE_CURRENCY \<equiv> ''QuoteCurrency''"
abbreviation SECURITY_TYPE :: string where "SECURITY_TYPE \<equiv> ''SecurityType''"
abbreviation TICK_PRECISION :: string where "TICK_PRECISION \<equiv> ''TickPrecision''"
abbreviation TICK_SIZE :: string where "TICK_SIZE \<equiv> ''TickSize''"
abbreviation ROUND_LOT_SIZE :: string where "ROUND_LOT_SIZE \<equiv> ''RoundLotSize''"
abbreviation MIN_STOP_DISTANCE_ENTRY :: string where "MIN_STOP_DISTANCE_ENTRY \<equiv> ''MinStopDistanceEntry''"
abbreviation MIN_STOP_DISTANCE :: string where "MIN_STOP_DISTANCE \<equiv> ''MinStopDistance''"
abbreviation MIN_LIMIT_DISTANCE_ENTRY :: string where "MIN_LIMIT_DISTANCE_ENTRY \<equiv> ''MinLimitDistanceEntry''"
abbreviation MIN_LIMIT_DISTANCE :: string where "MIN_LIMIT_DISTANCE \<equiv> ''MinLimitDistance''"
abbreviation MIN_TRADE_SIZE :: string where "MIN_TRADE_SIZE \<equiv> ''MinTradeSize''"
abbreviation MAX_TRADE_SIZE :: string where "MAX_TRADE_SIZE \<equiv> ''MaxTradeSize''"
abbreviation ROLL_OVER_INTEREST_BUY :: string where "ROLL_OVER_INTEREST_BUY \<equiv> ''RollOverInterestBuy''"
abbreviation ROLL_OVER_INTEREST_SELL :: string where "ROLL_OVER_INTEREST_SELL \<equiv> ''RollOverInterestSell''"

text \<open>
  \<open>cdef dict unpacked = msgpack.unpackb(...)\<close> followed by a use of the dict: anything but
  a dict is a \<open>TypeError\<close>.
\<close>

fun dict_var :: "pyobj \<Rightarrow> error + dict" where
  "dict_var (PDict d) = Inr d"
| "dict_var _ = Inl TypeError"

text \<open>
  \<open>cdef str x = ...\<close>: a \<open>str\<close> or \<open>None\<close> may be assigned, anything else is a
  \<open>TypeError\<close>.
\<close>

fun str_var :: "pyobj \<Rightarrow> error + string option" where
  "str_var (PStr s) = Inr (Some s)"
| "str_var PNone = Inr None"
| "str_var _ = Inl TypeError"

text \<open>\<open>f(unpacked[k])\<close>: the lookup comes first, then the conversion.\<close>

definition field :: "dict \<Rightarrow> string \<Rightarrow> (pyobj \<Rightarrow> error + 'a) \<Rightarrow> error + 'a" where
  "field unpacked k f = bind (getitem unpacked k) f"

subsection \<open>Orders\<close>

text \<open>
  The fields carry the names of the constructor's keyword arguments; \<open>order.id\<close>,
  \<open>order.side\<close> and \<open>order.type\<close> of the source are \<open>order_id\<close>, \<open>order_side\<close> and
  \<open>order_type\<close>. A field whose decoder can return \<open>None\<close> is an option.
\<close>

record Order =
  order_id :: OrderId
  symbol :: Symbol
  order_side :: OrderSide
  order_type :: OrderType
  quantity :: Quantity
  timestamp :: "datetime option"
  price :: "Price option"
  label :: "Label option"
  time_in_force :: TimeInForce
  expire_time :: "datetime option"
  init_id :: GUID

definition Order_package :: "Order \<Rightarrow> package" where
  "Order_package order = [
     (ID, VStr (order_id_value (Order.order_id order))),
     (SYMBOL, VStr (symbol_value (Order.symbol order))),
     (ORDER_SIDE, VStr (order_side_string (Order.order_side order))),
     (ORDER_TYPE, VStr (order_type_string (Order.order_type order))),
     (QUANTITY, VInt (quantity_value (Order.quantity order))),
     (PRICE, VStr (convert_price_to_string (Order.price order))),
     (LABEL, VStr (convert_label_to_string (Order.label order))),
     (TIME_IN_FORCE, VStr (time_in_force_string (Order.time_in_force order))),
     (EXPIRE_TIME, VStr (convert_datetime_to_string (Order.expire_time order))),
     (TIMESTAMP, VStr (convert_datetime_to_string (Order.timestamp order))),
     (INIT_ID, VStr (guid_value (Order.init_id order)))]"

definition MsgPackOrderSerializer_serialize :: "Order option \<Rightarrow> error + bytes" where
  "MsgPackOrderSerializer_serialize order =
     (case order of None \<Rightarrow> packb [] | Some ord \<Rightarrow> packb (Order_package ord))"

text \<open>
  Modelled from the spec: the class \<open>Order\<close> is not part of the sources at hand. The
  call \<open>Order(order_id=..., ...)\<close> below passes no \<open>init_id\<close>; the constructor gives the new
  order the identifier of its own initializing event, a GUID generated at creation. That
  identifier is the parameter \<open>new_init_id\<close>.
\<close>

definition MsgPackOrderSerializer_deserialize ::
    "enums \<Rightarrow> GUID \<Rightarrow> bytes \<Rightarrow> error + Order option" where
  "MsgPackOrderSerializer_deserialize E new_init_id order_bytes =
    bind (Precondition_not_empty order_bytes ''order_bytes'') (\<lambda>_.
    bind (unpackb False order_bytes) (\<lambda>u.
    bind (dict_var u) (\<lambda>unpacked.
    if length unpacked = 0 then Inr None
    else
      bind (field unpacked ID (new OrderId)) (\<lambda>a_order_id.
      bind (field unpacked SYMBOL parse_symbol) (\<lambda>a_symbol.
      bind (field unpacked ORDER_SIDE (enum_getitem (order_sides E) OrderSide)) (\<lambda>a_order_side.
      bind (field unpacked ORDER_TYPE (enum_getitem (order_types E) OrderType)) (\<lambda>a_order_type.
      bind (field unpacked QUANTITY new_Quantity) (\<lambda>a_quantity.
      bind (field unpacked TIMESTAMP convert_string_to_datetime) (\<lambda>a_timestamp.
      bind (field unpacked PRICE convert_string_to_price) (\<lambda>a_price.
      bind (field unpacked LABEL convert_string_to_label) (\<lambda>a_label.
      bind (field unpacked TIME_IN_FORCE (enum_getitem (times_in_force E) TimeInForce))
        (\<lambda>a_time_in_force.
      bind (field unpacked EXPIRE_TIME convert_string_to_datetime) (\<lambda>a_expire_time.
      Inr (Some \<lparr>order_id = a_order_id, symbol = a_symbol, order_side = a_order_side,
        order_type = a_order_type, quantity = a_quantity, timestamp = a_timestamp,
        price = a_price, label = a_label, time_in_force = a_time_in_force,
        expire_time = a_expire_time, init_id = new_init_id\<rparr>))))))))))))))"

subsection \<open>Instruments\<close>

text \<open>
  The fields carry the names of the constructor's keyword arguments; \<open>instrument.id\<close> of
  the source is \<open>instrument_id\<close>.
\<close>

record Instrument =
  instrument_id :: InstrumentId
  symbol :: Symbol
  broker_symbol :: string
  quote_currency :: Currency
  security_type :: SecurityType
  tick_precision :: int
  tick_size :: Decimal
  round_lot_size :: Quantity
  min_stop_distance_entry :: int
  min_stop_distance :: int
  min_limit_distance_entry :: int
  min_limit_distance :: int
  min_trade_size :: Quantity
  max_trade_size :: Quantity
  rollover_interest_buy :: Decimal
  rollover_interest_sell :: Decimal
  timestamp :: "datetime option"

definition Instrument_package :: "Instrument \<Rightarrow> package" where
  "Instrument_package instrument = [
     (ID, VStr (instrument_id_value (Instrument.instrument_id instrument))),
     (SYMBOL, VStr (symbol_value (Instrument.symbol instrument))),
     (BROKER_SYMBOL, VStr (Instrument.broker_symbol instrument)),
     (QUOTE_CURRENCY, VStr (currency_string (Instrument.quote_currency instrument))),
     (SECURITY_TYPE, VStr (security_type_string (Instrument.security_type instrument))),
     (TICK_PRECISION, VInt (Instrument.tick_precision instrument)),
     (TICK_SIZE, VStr (decimal_str (Instrument.tick_size instrument))),
     (ROUND_LOT_SIZE, VInt (quantity_value (Instrument.round_lot_size instrument))),
     (MIN_STOP_DISTANCE_ENTRY, VInt (Instrument.min_stop_distance_entry instrument)),
     (MIN_STOP_DISTANCE, VInt (Instrument.min_stop_distance instrument)),
     (MIN_LIMIT_DISTANCE_ENTRY, VInt (Instrument.min_limit_distance_entry instrument)),
     (MIN_LIMIT_DISTANCE, VInt (Instrument.min_limit_distance instrument)),
     (MIN_TRADE_SIZE, VInt (quantity_value (Instrument.min_trade_size instrument))),
     (MAX_TRADE_SIZE, VInt (quantity_value (Instrument.max_trade_size instrument))),
     (ROLL_OVER_INTEREST_BUY, VStr (decimal_str (Instrument.rollover_interest_buy instrument))),
     (ROLL_OVER_INTEREST_SELL, VStr (decimal_str (Instrument.rollover_interest_sell instrument))),
     (TIMESTAMP, VStr (convert_datetime_to_string (Instrument.timestamp instrument)))]"

definition MsgPackInstrumentSerializer_serialize :: "Instrument \<Rightarrow> error + bytes" where
  "MsgPackInstrumentSerializer_serialize instrument = packb (Instrument_package instrument)"

definition MsgPackInstrumentSerializer_deserialize :: "enums \<Rightarrow> bytes \<Rightarrow> error + Instrument" where
  "MsgPackInstrumentSerializer_deserialize E instrument_bytes =
    bind (unpackb False instrument_bytes) (\<lambda>u.
    bind (dict_var u) (\<lambda>unpacked.
      bind (field unpacked ID (new InstrumentId)) (\<lambda>a_instrument_id.
      bind (field unpacked SYMBOL parse_symbol) (\<lambda>a_symbol.
      bind (field unpacked BROKER_SYMBOL str_arg) (\<lambda>a_broker_symbol.
      bind (field unpacked QUOTE_CURRENCY (enum_getitem (currencies E) Currency))
        (\<lambda>a_quote_currency.
      bind (field unpacked SECURITY_TYPE (enum_getitem (security_types E) SecurityType))
        (\<lambda>a_security_type.
      bind (field unpacked TICK_PRECISION int_arg) (\<lambda>a_tick_precision.
      bind (field unpacked TICK_SIZE (new_decimal Decimal)) (\<lambda>a_tick_size.
      bind (field unpacked ROUND_LOT_SIZE new_Quantity) (\<lambda>a_round_lot_size.
      bind (field unpacked MIN_STOP_DISTANCE_ENTRY int_arg) (\<lambda>a_min_stop_distance_entry.
      bind (field unpacked MIN_STOP_DISTANCE int_arg) (\<lambda>a_min_stop_distance.
      bind (field unpacked MIN_LIMIT_DISTANCE_ENTRY int_arg) (\<lambda>a_min_limit_distance_entry.
      bind (field unpacked MIN_LIMIT_DISTANCE int_arg) (\<lambda>a_min_limit_distance.
      bind (field unpacked MIN_TRADE_SIZE new_Quantity) (\<lambda>a_min_trade_size.
      bind (field unpacked MAX_TRADE_SIZE new_Quantity) (\<lambda>a_max_trade_size.
      bind (field unpacked ROLL_OVER_INTEREST_BUY (new_decimal Decimal))
        (\<lambda>a_rollover_interest_buy.
      bind (field unpacked ROLL_OVER_INTEREST_SELL (new_decimal Decimal))
        (\<lambda>a_rollover_interest_sell.
      bind (field unpacked TIMESTAMP convert_string_to_datetime) (\<lambda>a_timestamp.
      Inr \<lparr>instrument_id = a_instrument_id, symbol = a_symbol,
        broker_symbol = a_broker_symbol, quote_currency = a_quote_currency,
        security_type = a_security_type, tick_precision = a_tick_precision,
        tick_size = a_tick_size, round_lot_size = a_round_lot_size,
        min_stop_distance_entry = a_min_stop_distance_entry,
        min_stop_distance = a_min_stop_distance,
        min_limit_distance_entry = a_min_limit_distance_entry,
        min_limit_distance = a_min_limit_distance, min_trade_size = a_min_trade_size,
        max_trade_size = a_max_trade_size, rollover_interest_buy = a_rollover_interest_buy,
        rollover_interest_sell = a_rollover_interest_sell,
        timestamp = a_timestamp\<rparr>)))))))))))))))))))"

subsection \<open>Commands\<close>

text \<open>
  The closed set of commands; the arguments of each constructor are in the order in which
  \<open>deserialize\<close> passes them. A nested order that was decoded from the null order is
  \<open>None\<close>.
\<close>

datatype AtomicOrder = AtomicOrder (entry: "Order option") (stop_loss: "Order option")
  (take_profit: "Order option")

datatype Command =
    CollateralInquiry GUID "datetime option"
  | SubmitOrder TraderId StrategyId PositionId "Order option" GUID "datetime option"
  | SubmitAtomicOrder TraderId StrategyId PositionId AtomicOrder GUID "datetime option"
  | ModifyOrder TraderId StrategyId OrderId Price GUID "datetime option"
  | CancelOrder TraderId StrategyId OrderId ValidString GUID "datetime option"

definition Command_header :: "GUID \<Rightarrow> datetime option \<Rightarrow> package" where
  "Command_header command_id command_timestamp = [
     (TYPE_KEY, VStr COMMAND),
     (COMMAND_ID, VStr (guid_value command_id)),
     (COMMAND_TIMESTAMP, VStr (convert_datetime_to_string command_timestamp))]"

text \<open>
  The package \<open>serialize\<close> hands to \<open>packb\<close>. The keys of one message are distinct, so
  each \<open>package[k] = v\<close> of the source appends an item.
\<close>

fun Command_package :: "Command \<Rightarrow> error + package" where
  "Command_package (CollateralInquiry command_id command_timestamp) =
     Inr (Command_header command_id command_timestamp @ [(COMMAND, VStr COLLATERAL_INQUIRY)])"
| "Command_package (SubmitOrder trader_id strategy_id position_id order command_id
      command_timestamp) =
     bind (MsgPackOrderSerializer_serialize order) (\<lambda>order_bytes.
     Inr (Command_header command_id command_timestamp @ [
       (COMMAND, VStr SUBMIT_ORDER),
       (TRADER_ID, VStr (trader_id_value trader_id)),
       (STRATEGY_ID, VStr (strategy_id_value strategy_id)),
       (POSITION_ID, VStr (position_id_value position_id)),
       (ORDER, VBytes order_bytes)]))"
| "Command_package (SubmitAtomicOrder trader_id strategy_id position_id atomic_order command_id
      command_timestamp) =
     bind (MsgPackOrderSerializer_serialize (entry atomic_order)) (\<lambda>entry_bytes.
     bind (MsgPackOrderSerializer_serialize (stop_loss atomic_order)) (\<lambda>stop_loss_bytes.
     bind (MsgPackOrderSerializer_serialize (take_profit atomic_order)) (\<lambda>take_profit_bytes.
     Inr (Command_header command_id command_timestamp @ [
       (COMMAND, VStr SUBMIT_ATOMIC_ORDER),
       (TRADER_ID, VStr (trader_id_value trader_id)),
       (STRATEGY_ID, VStr (strategy_id_value strategy_id)),
       (POSITION_ID, VStr (position_id_value position_id)),
       (ENTRY, VBytes entry_bytes),
       (STOP_LOSS, VBytes stop_loss_bytes),
       (TAKE_PROFIT, VBytes take_profit_bytes)]))))"
| "Command_package (ModifyOrder trader_id strategy_id order_id' modified_price command_id
      command_timestamp) =
     Inr (Command_header command_id command_timestamp @ [
       (COMMAND, VStr MODIFY_ORDER),
       (TRADER_ID, VStr (trader_id_value trader_id)),
       (STRATEGY_ID, VStr (strategy_id_value strategy_id)),
       (ORDER_ID, VStr (order_id_value order_id')),
       (MODIFIED_PRICE, VStr (price_str modified_price))])"
| "Command_package (CancelOrder trader_id strategy_id order_id' cancel_reason command_id
      command_timestamp) =
     Inr (Command_header command_id command_timestamp @ [
       (COMMAND, VStr CANCEL_ORDER),
       (TRADER_ID, VStr (trader_id_value trader_id)),
       (STRATEGY_ID, VStr (strategy_id_value strategy_id)),
       (ORDER_ID, VStr (order_id_value order_id')),
       (CANCEL_REASON, VStr (valid_string_value cancel_reason))])"

definition MsgPackCommandSerializer_serialize :: "Command \<Rightarrow> error + bytes" where
  "MsgPackCommandSerializer_serialize command = bind (Command_package command) packb"

text \<open>\<open>v.decode(UTF8)\<close>: only \<open>bytes\<close> has the method.\<close>

fun bytes_decode :: "pyobj \<Rightarrow> error + string" where
  "bytes_decode (PBytes b) = (if utf8_valid b then Inr b else Inl UnicodeDecodeError)"
| "bytes_decode _ = Inl AttributeError"

fun isinstance_bytes :: "pyobj \<Rightarrow> bool" where
  "isinstance_bytes (PBytes b) = True"
| "isinstance_bytes _ = False"

definition order_keys :: "pyobj list" where
  "order_keys = [PBytes ''Order'', PBytes ''Entry'', PBytes ''StopLoss'', PBytes ''TakeProfit'']"

text \<open>
  The loop \<open>for k, v in unpacked_raw.items()\<close> of \<open>MsgPackCommandSerializer.deserialize\<close>
  (``manually unpack and decode''), filling \<open>unpacked\<close>. In an assignment the right-hand
  side is evaluated before the subscript of the target.
\<close>

fun decode_items :: "dict \<Rightarrow> dict \<Rightarrow> error + dict" where
  "decode_items [] unpacked = Inr unpacked"
| "decode_items ((k, v) # items) unpacked =
     (if k \<notin> set order_keys then
        (if isinstance_bytes v then
           bind (bytes_decode v) (\<lambda>dv.
           bind (bytes_decode k) (\<lambda>dk.
           decode_items items (AList.update (PStr dk) (PStr dv) unpacked)))
         else
           bind (bytes_decode k) (\<lambda>dk.
           decode_items items (AList.update (PStr dk) v unpacked)))
      else
        bind (bytes_decode k) (\<lambda>dk.
        decode_items items (AList.update (PStr dk) v unpacked)))"

text \<open>
  \<open>self.order_serializer.deserialize(unpacked[...])\<close>: the parameter is declared \<open>bytes\<close>;
  \<open>None\<close> passes the declaration and fails the precondition.
\<close>

fun order_serializer_deserialize :: "enums \<Rightarrow> GUID \<Rightarrow> pyobj \<Rightarrow> error + Order option" where
  "order_serializer_deserialize E g (PBytes b) = MsgPackOrderSerializer_deserialize E g b"
| "order_serializer_deserialize E g PNone = Inl (PreconditionFailed ''order_bytes'')"
| "order_serializer_deserialize E g _ = Inl TypeError"

text \<open>
  The chain of \<open>if command == ...\<close> that ends \<open>deserialize\<close>. \<open>new_init_id i\<close> is the
  identifier that the constructor gives to the \<open>i\<close>-th nested order of the message.
\<close>

definition Command_from_unpacked ::
    "enums \<Rightarrow> (nat \<Rightarrow> GUID) \<Rightarrow> dict \<Rightarrow> string option \<Rightarrow> GUID \<Rightarrow> datetime option
      \<Rightarrow> error + Command" where
  "Command_from_unpacked E new_init_id unpacked command command_id command_timestamp =
    (if command = Some COLLATERAL_INQUIRY then
        Inr (CollateralInquiry command_id command_timestamp)
     else if command = Some SUBMIT_ORDER then
        bind (field unpacked TRADER_ID (new TraderId)) (\<lambda>a1.
        bind (field unpacked STRATEGY_ID (new StrategyId)) (\<lambda>a2.
        bind (field unpacked POSITION_ID (new PositionId)) (\<lambda>a3.
        bind (field unpacked ORDER (order_serializer_deserialize E (new_init_id 0))) (\<lambda>a4.
        Inr (SubmitOrder a1 a2 a3 a4 command_id command_timestamp)))))
     else if command = Some SUBMIT_ATOMIC_ORDER then
        bind (field unpacked TRADER_ID (new TraderId)) (\<lambda>a1.
        bind (field unpacked STRATEGY_ID (new StrategyId)) (\<lambda>a2.
        bind (field unpacked POSITION_ID (new PositionId)) (\<lambda>a3.
        bind (field unpacked ENTRY (order_serializer_deserialize E (new_init_id 0))) (\<lambda>a4.
        bind (field unpacked STOP_LOSS (order_serializer_deserialize E (new_init_id 1))) (\<lambda>a5.
        bind (field unpacked TAKE_PROFIT (order_serializer_deserialize E (new_init_id 2))) (\<lambda>a6.
        Inr (SubmitAtomicOrder a1 a2 a3 (AtomicOrder a4 a5 a6) command_id command_timestamp)))))))
     else if command = Some MODIFY_ORDER then
        bind (field unpacked TRADER_ID (new TraderId)) (\<lambda>a1.
        bind (field unpacked STRATEGY_ID (new StrategyId)) (\<lambda>a2.
        bind (field unpacked ORDER_ID (new OrderId)) (\<lambda>a3.
        bind (field unpacked MODIFIED_PRICE (new_decimal Price)) (\<lambda>a4.
        Inr (ModifyOrder a1 a2 a3 a4 command_id command_timestamp)))))
     else if command = Some CANCEL_ORDER then
        bind (field unpacked TRADER_ID (new TraderId)) (\<lambda>a1.
        bind (field unpacked STRATEGY_ID (new StrategyId)) (\<lambda>a2.
        bind (field unpacked ORDER_ID (new OrderId)) (\<lambda>a3.
        bind (field unpacked CANCEL_REASON (new ValidString)) (\<lambda>a4.
        Inr (CancelOrder a1 a2 a3 a4 command_id command_timestamp)))))
     else Inl (ValueError ''Cannot deserialize command (unrecognized bytes pattern).''))"

definition MsgPackCommandSerializer_deserialize ::
    "enums \<Rightarrow> (nat \<Rightarrow> GUID) \<Rightarrow> bytes \<Rightarrow> error + Command" where
  "MsgPackCommandSerializer_deserialize E new_init_id command_bytes =
    bind (Precondition_not_empty command_bytes ''command_bytes'') (\<lambda>_.
    bind (unpackb True command_bytes) (\<lambda>u.
    bind (dict_var u) (\<lambda>unpacked_raw.
    bind (case map_of unpacked_raw (PBytes ''Type'') of
            None \<Rightarrow> Inl (KeyError ''Type'') | Some v \<Rightarrow> bytes_decode v) (\<lambda>message_type.
    if message_type \<noteq> COMMAND then
      Inl (ValueError ''Cannot deserialize command (the message is not a type of command).'')
    else
      bind (decode_items unpacked_raw []) (\<lambda>unpacked.
      bind (field unpacked COMMAND str_var) (\<lambda>command.
      bind (field unpacked COMMAND_ID new_GUID) (\<lambda>command_id.
      bind (field unpacked COMMAND_TIMESTAMP convert_string_to_datetime) (\<lambda>command_timestamp.
      Command_from_unpacked E new_init_id unpacked command command_id command_timestamp))))))))"

subsection \<open>Events\<close>

text \<open>
  The closed set of events; the arguments of each constructor are in the order in which
  \<open>deserialize\<close> passes them (for \<open>OrderInitialized\<close>, which \<open>deserialize\<close> never
  builds, in the order in which \<open>serialize\<close> writes them, then identifier and timestamp).
  In \<open>OrderWorking\<close> the expire time is the last argument.
\<close>

datatype Event =
    AccountEvent AccountId Broker AccountNumber Currency Money Money Money Money Money Decimal
      ValidString GUID "datetime option"
  | OrderInitialized OrderId Symbol Label OrderSide OrderType Quantity Price TimeInForce
      "datetime option" GUID "datetime option"
  | OrderSubmitted OrderId "datetime option" GUID "datetime option"
  | OrderAccepted OrderId "datetime option" GUID "datetime option"
  | OrderRejected OrderId "datetime option" ValidString GUID "datetime option"
  | OrderWorking OrderId OrderId Symbol Label OrderSide OrderType Quantity Price TimeInForce
      "datetime option" GUID "datetime option" "datetime option"
  | OrderCancelled OrderId "datetime option" GUID "datetime option"
  | OrderCancelReject OrderId "datetime option" ValidString ValidString GUID "datetime option"
  | OrderModified OrderId OrderId Price "datetime option" GUID "datetime option"
  | OrderExpired OrderId "datetime option" GUID "datetime option"
  | OrderPartiallyFilled OrderId ExecutionId ExecutionTicket Symbol OrderSide Quantity Quantity
      Price "datetime option" GUID "datetime option"
  | OrderFilled OrderId ExecutionId ExecutionTicket Symbol OrderSide Quantity Price
      "datetime option" GUID "datetime option"

definition Event_header :: "string \<Rightarrow> GUID \<Rightarrow> datetime option \<Rightarrow> package" where
  "Event_header class_name event_id event_timestamp = [
     (TYPE_KEY, VStr EVENT),
     (EVENT, VStr class_name),
     (EVENT_ID, VStr (guid_value event_id)),
     (EVENT_TIMESTAMP, VStr (convert_datetime_to_string event_timestamp))]"

text \<open>
  The package \<open>serialize\<close> hands to \<open>packb\<close>, one equation for each \<open>isinstance\<close> test.
  For an \<open>AccountEvent\<close> the source reads the account identifier through the attribute it
  calls \<open>order_id\<close>. \<open>str(x)\<close> of a \<open>ValidString\<close> is its value.
\<close>

fun Event_package :: "Event \<Rightarrow> package" where
  "Event_package (AccountEvent account_id broker account_number currency cash_balance
      cash_start_day cash_activity_day margin_used_liquidation margin_used_maintenance
      margin_ratio margin_call_status event_id event_timestamp) =
     Event_header ''AccountEvent'' event_id event_timestamp @ [
       (ACCOUNT_ID, VStr (account_id_value account_id)),
       (BROKER, VStr (broker_string broker)),
       (ACCOUNT_NUMBER, VStr (account_number_value account_number)),
       (CURRENCY, VStr (currency_string currency)),
       (CASH_BALANCE, VStr (money_str cash_balance)),
       (CASH_START_DAY, VStr (money_str cash_start_day)),
       (CASH_ACTIVITY_DAY, VStr (money_str cash_activity_day)),
       (MARGIN_USED_LIQUIDATION, VStr (money_str margin_used_liquidation)),
       (MARGIN_USED_MAINTENANCE, VStr (money_str margin_used_maintenance)),
       (MARGIN_RATIO, VStr (decimal_str margin_ratio)),
       (MARGIN_CALL_STATUS, VStr (valid_string_value margin_call_status))]"
| "Event_package (OrderInitialized order_id' symbol' label' order_side' order_type' quantity' price'
      time_in_force' expire_time' event_id event_timestamp) =
     Event_header ''OrderInitialized'' event_id event_timestamp @ [
       (ORDER_ID, VStr (order_id_value order_id')),
       (SYMBOL, VStr (symbol_value symbol')),
       (LABEL, VStr (label_value label')),
       (ORDER_SIDE, VStr (order_side_string order_side')),
       (ORDER_TYPE, VStr (order_type_string order_type')),
       (QUANTITY, VInt (quantity_value quantity')),
       (PRICE, VStr (price_str price')),
       (TIME_IN_FORCE, VStr (time_in_force_string time_in_force')),
       (EXPIRE_TIME, VStr (convert_datetime_to_string expire_time'))]"
| "Event_package (OrderSubmitted order_id' submitted_time event_id event_timestamp) =
     Event_header ''OrderSubmitted'' event_id event_timestamp @ [
       (ORDER_ID, VStr (order_id_value order_id')),
       (SUBMITTED_TIME, VStr (convert_datetime_to_string submitted_time))]"
| "Event_package (OrderAccepted order_id' accepted_time event_id event_timestamp) =
     Event_header ''OrderAccepted'' event_id event_timestamp @ [
       (ORDER_ID, VStr (order_id_value order_id')),
       (ACCEPTED_TIME, VStr (convert_datetime_to_string accepted_time))]"
| "Event_package (OrderRejected order_id' rejected_time rejected_reason event_id
      event_timestamp) =
     Event_header ''OrderRejected'' event_id event_timestamp @ [
       (ORDER_ID, VStr (order_id_value order_id')),
       (REJECTED_TIME, VStr (convert_datetime_to_string rejected_time)),
       (REJECTED_REASON, VStr (valid_string_value rejected_reason))]"
| "Event_package (OrderWorking order_id' order_id_broker symbol' label' order_side' order_type'
      quantity' price' time_in_force' working_time event_id event_timestamp expire_time') =
     Event_header ''OrderWorking'' event_id event_timestamp @ [
       (ORDER_ID, VStr (order_id_value order_id')),
       (ORDER_ID_BROKER, VStr (order_id_value order_id_broker)),
       (SYMBOL, VStr (symbol_value symbol')),
       (LABEL, VStr (label_value label')),
       (ORDER_SIDE, VStr (order_side_string order_side')),
       (ORDER_TYPE, VStr (order_type_string order_type')),
       (QUANTITY, VInt (quantity_value quantity')),
       (PRICE, VStr (price_str price')),
       (TIME_IN_FORCE, VStr (time_in_force_string time_in_force')),
       (EXPIRE_TIME, VStr (convert_datetime_to_string expire_time')),
       (WORKING_TIME, VStr (convert_datetime_to_string working_time))]"
| "Event_package (OrderCancelReject order_id' cancel_reject_time cancel_reject_response
      cancel_reject_reason event_id event_timestamp) =
     Event_header ''OrderCancelReject'' event_id event_timestamp @ [
       (ORDER_ID, VStr (order_id_value order_id')),
       (REJECTED_TIME, VStr (convert_datetime_to_string cancel_reject_time)),
       (REJECTED_RESPONSE, VStr (valid_string_value cancel_reject_response)),
       (REJECTED_REASON, VStr (valid_string_value cancel_reject_reason))]"
| "Event_package (OrderCancelled order_id' cancelled_time event_id event_timestamp) =
     Event_header ''OrderCancelled'' event_id event_timestamp @ [
       (ORDER_ID, VStr (order_id_value order_id')),
       (CANCELLED_TIME, VStr (convert_datetime_to_string cancelled_time))]"
| "Event_package (OrderModified order_id' order_id_broker modified_price modified_time event_id
      event_timestamp) =
     Event_header ''OrderModified'' event_id event_timestamp @ [
       (ORDER_ID, VStr (order_id_value order_id')),
       (ORDER_ID_BROKER, VStr (order_id_value order_id_broker)),
       (MODIFIED_TIME, VStr (convert_datetime_to_string modified_time)),
       (MODIFIED_PRICE, VStr (price_str modified_price))]"
| "Event_package (OrderExpired order_id' expired_time event_id event_timestamp) =
     Event_header ''OrderExpired'' event_id event_timestamp @ [
       (ORDER_ID, VStr (order_id_value order_id')),
       (EXPIRED_TIME, VStr (convert_datetime_to_string expired_time))]"
| "Event_package (OrderPartiallyFilled order_id' execution_id execution_ticket symbol' order_side'
      filled_quantity leaves_quantity average_price execution_time event_id event_timestamp) =
     Event_header ''OrderPartiallyFilled'' event_id event_timestamp @ [
       (ORDER_ID, VStr (order_id_value order_id')),
       (EXECUTION_ID, VStr (execution_id_value execution_id)),
       (EXECUTION_TICKET, VStr (execution_ticket_value execution_ticket)),
       (SYMBOL, VStr (symbol_value symbol')),
       (ORDER_SIDE, VStr (order_side_string order_side')),
       (FILLED_QUANTITY, VInt (quantity_value filled_quantity)),
       (LEAVES_QUANTITY, VInt (quantity_value leaves_quantity)),
       (AVERAGE_PRICE, VStr (price_str average_price)),
       (EXECUTION_TIME, VStr (convert_datetime_to_string execution_time))]"
| "Event_package (OrderFilled order_id' execution_id execution_ticket symbol' order_side'
      filled_quantity average_price execution_time event_id event_timestamp) =
     Event_header ''OrderFilled'' event_id event_timestamp @ [
       (ORDER_ID, VStr (order_id_value order_id')),
       (EXECUTION_ID, VStr (execution_id_value execution_id)),
       (EXECUTION_TICKET, VStr (execution_ticket_value execution_ticket)),
       (SYMBOL, VStr (symbol_value symbol')),
       (ORDER_SIDE, VStr (order_side_string order_side')),
       (FILLED_QUANTITY, VInt (quantity_value filled_quantity)),
       (AVERAGE_PRICE, VStr (price_str average_price)),
       (EXECUTION_TIME, VStr (convert_datetime_to_string execution_time))]"

definition MsgPackEventSerializer_serialize :: "Event \<Rightarrow> error + bytes" where
  "MsgPackEventSerializer_serialize event = packb (Event_package event)"

text \<open>The chain of \<open>if event_type == ...\<close> that ends \<open>deserialize\<close>.\<close>

definition Event_from_unpacked ::
    "enums \<Rightarrow> dict \<Rightarrow> string option \<Rightarrow> GUID \<Rightarrow> datetime option \<Rightarrow> error + Event" where
  "Event_from_unpacked E unpacked event_type event_id event_timestamp =
    (if event_type = Some ''AccountEvent'' then
        bind (field unpacked ACCOUNT_ID (new AccountId)) (\<lambda>a1.
        bind (field unpacked BROKER (enum_getitem (brokers E) Broker)) (\<lambda>a2.
        bind (field unpacked ACCOUNT_NUMBER (new AccountNumber)) (\<lambda>a3.
        bind (field unpacked CURRENCY (enum_getitem (currencies E) Currency)) (\<lambda>a4.
        bind (field unpacked CASH_BALANCE (new_decimal Money)) (\<lambda>a5.
        bind (field unpacked CASH_START_DAY (new_decimal Money)) (\<lambda>a6.
        bind (field unpacked CASH_ACTIVITY_DAY (new_decimal Money)) (\<lambda>a7.
        bind (field unpacked MARGIN_USED_LIQUIDATION (new_decimal Money)) (\<lambda>a8.
        bind (field unpacked MARGIN_USED_MAINTENANCE (new_decimal Money)) (\<lambda>a9.
        bind (field unpacked MARGIN_RATIO (new_decimal Decimal)) (\<lambda>a10.
        Inr (AccountEvent a1 a2 a3 a4 a5 a6 a7 a8 a9 a10 (ValidString NONE) event_id event_timestamp)))))))))))
     else if event_type = Some ''OrderSubmitted'' then
        bind (field unpacked ORDER_ID (new OrderId)) (\<lambda>a1.
        bind (field unpacked SUBMITTED_TIME convert_string_to_datetime) (\<lambda>a2.
        Inr (OrderSubmitted a1 a2 event_id event_timestamp)))
     else if event_type = Some ''OrderAccepted'' then
        bind (field unpacked ORDER_ID (new OrderId)) (\<lambda>a1.
        bind (field unpacked ACCEPTED_TIME convert_string_to_datetime) (\<lambda>a2.
        Inr (OrderAccepted a1 a2 event_id event_timestamp)))
     else if event_type = Some ''OrderRejected'' then
        bind (field unpacked ORDER_ID (new OrderId)) (\<lambda>a1.
        bind (field unpacked REJECTED_TIME convert_string_to_datetime) (\<lambda>a2.
        bind (field unpacked REJECTED_REASON (new ValidString)) (\<lambda>a3.
        Inr (OrderRejected a1 a2 a3 event_id event_timestamp))))
     else if event_type = Some ''OrderWorking'' then
        bind (field unpacked ORDER_ID (new OrderId)) (\<lambda>a1.
        bind (field unpacked ORDER_ID_BROKER (new OrderId)) (\<lambda>a2.
        bind (field unpacked SYMBOL parse_symbol) (\<lambda>a3.
        bind (field unpacked LABEL (new Label)) (\<lambda>a4.
        bind (field unpacked ORDER_SIDE (enum_getitem (order_sides E) OrderSide)) (\<lambda>a5.
        bind (field unpacked ORDER_TYPE (enum_getitem (order_types E) OrderType)) (\<lambda>a6.
        bind (field unpacked QUANTITY new_Quantity) (\<lambda>a7.
        bind (field unpacked PRICE (new_decimal Price)) (\<lambda>a8.
        bind (field unpacked TIME_IN_FORCE (enum_getitem (times_in_force E) TimeInForce)) (\<lambda>a9.
        bind (field unpacked WORKING_TIME convert_string_to_datetime) (\<lambda>a10.
        bind (field unpacked EXPIRE_TIME convert_string_to_datetime) (\<lambda>a11.
        Inr (OrderWorking a1 a2 a3 a4 a5 a6 a7 a8 a9 a10 event_id event_timestamp a11))))))))))))
     else if event_type = Some ''OrderCancelled'' then
        bind (field unpacked ORDER_ID (new OrderId)) (\<lambda>a1.
        bind (field unpacked CANCELLED_TIME convert_string_to_datetime) (\<lambda>a2.
        Inr (OrderCancelled a1 a2 event_id event_timestamp)))
     else if event_type = Some ''OrderCancelReject'' then
        bind (field unpacked ORDER_ID (new OrderId)) (\<lambda>a1.
        bind (field unpacked REJECTED_TIME convert_string_to_datetime) (\<lambda>a2.
        bind (field unpacked REJECTED_RESPONSE (new ValidString)) (\<lambda>a3.
        bind (field unpacked REJECTED_REASON (new ValidString)) (\<lambda>a4.
        Inr (OrderCancelReject a1 a2 a3 a4 event_id event_timestamp)))))
     else if event_type = Some ''OrderModified'' then
        bind (field unpacked ORDER_ID (new OrderId)) (\<lambda>a1.
        bind (field unpacked ORDER_ID_BROKER (new OrderId)) (\<lambda>a2.
        bind (field unpacked MODIFIED_PRICE (new_decimal Price)) (\<lambda>a3.
        bind (field unpacked MODIFIED_TIME convert_string_to_datetime) (\<lambda>a4.
        Inr (OrderModified a1 a2 a3 a4 event_id event_timestamp)))))
     else if event_type = Some ''OrderExpired'' then
        bind (field unpacked ORDER_ID (new OrderId)) (\<lambda>a1.
        bind (field unpacked EXPIRED_TIME convert_string_to_datetime) (\<lambda>a2.
        Inr (OrderExpired a1 a2 event_id event_timestamp)))
     else if event_type = Some ''OrderPartiallyFilled'' then
        bind (field unpacked ORDER_ID (new OrderId)) (\<lambda>a1.
        bind (field unpacked EXECUTION_ID (new ExecutionId)) (\<lambda>a2.
        bind (field unpacked EXECUTION_TICKET (new ExecutionTicket)) (\<lambda>a3.
        bind (field unpacked SYMBOL parse_symbol) (\<lambda>a4.
        bind (field unpacked ORDER_SIDE (enum_getitem (order_sides E) OrderSide)) (\<lambda>a5.
        bind (field unpacked FILLED_QUANTITY new_Quantity) (\<lambda>a6.
        bind (field unpacked LEAVES_QUANTITY new_Quantity) (\<lambda>a7.
        bind (field unpacked AVERAGE_PRICE (new_decimal Price)) (\<lambda>a8.
        bind (field unpacked EXECUTION_TIME convert_string_to_datetime) (\<lambda>a9.
        Inr (OrderPartiallyFilled a1 a2 a3 a4 a5 a6 a7 a8 a9 event_id event_timestamp))))))))))
     else if event_type = Some ''OrderFilled'' then
        bind (field unpacked ORDER_ID (new OrderId)) (\<lambda>a1.
        bind (field unpacked EXECUTION_ID (new ExecutionId)) (\<lambda>a2.
        bind (field unpacked EXECUTION_TICKET (new ExecutionTicket)) (\<lambda>a3.
        bind (field unpacked SYMBOL parse_symbol) (\<lambda>a4.
        bind (field unpacked ORDER_SIDE (enum_getitem (order_sides E) OrderSide)) (\<lambda>a5.
        bind (field unpacked FILLED_QUANTITY new_Quantity) (\<lambda>a6.
        bind (field unpacked AVERAGE_PRICE (new_decimal Price)) (\<lambda>a7.
        bind (field unpacked EXECUTION_TIME convert_string_to_datetime) (\<lambda>a8.
        Inr (OrderFilled a1 a2 a3 a4 a5 a6 a7 a8 event_id event_timestamp)))))))))
     else Inl (ValueError ''Cannot deserialize event (unrecognized event).''))"

definition MsgPackEventSerializer_deserialize :: "enums \<Rightarrow> bytes \<Rightarrow> error + Event" where
  "MsgPackEventSerializer_deserialize E event_bytes =
    bind (Precondition_not_empty event_bytes ''event_bytes'') (\<lambda>_.
    bind (unpackb False event_bytes) (\<lambda>u.
    bind (dict_var u) (\<lambda>unpacked.
    bind (field unpacked TYPE_KEY str_var) (\<lambda>message_type.
    if message_type \<noteq> Some EVENT then
      Inl (ValueError ''Cannot deserialize event (the message is not a type of event).'')
    else
      bind (field unpacked EVENT str_var) (\<lambda>event_type.
      bind (field unpacked EVENT_ID new_GUID) (\<lambda>event_id.
      bind (field unpacked EVENT_TIMESTAMP convert_string_to_datetime) (\<lambda>event_timestamp.
      Event_from_unpacked E unpacked event_type event_id event_timestamp)))))))"

subsection \<open>Values that can travel\<close>

text \<open>
  What a value must satisfy for its encoding to decode: every string is well-formed UTF-8,
  an identifier of a message is a canonical UUID, a timestamp has the fixed format, a
  price or an amount of money is a decimal numeral, a label is not the string that stands
  for an absent label, and an enumeration name is in its table.
\<close>

definition valid_GUID :: "GUID \<Rightarrow> bool" where
  "valid_GUID g = (is_uuid (guid_value g) \<and> map lower (guid_value g) = guid_value g
     \<and> utf8_valid (guid_value g))"

definition valid_time :: "datetime option \<Rightarrow> bool" where
  "valid_time t = (case t of None \<Rightarrow> True
     | Some d \<Rightarrow> is_timestamp (datetime_str d) \<and> utf8_valid (datetime_str d))"

definition valid_decimal :: "string \<Rightarrow> bool" where
  "valid_decimal s = (is_decimal s \<and> utf8_valid s)"

definition valid_name :: "string list \<Rightarrow> string \<Rightarrow> bool" where
  "valid_name names s = (s \<in> set names \<and> utf8_valid s)"

definition valid_Order :: "enums \<Rightarrow> Order \<Rightarrow> bool" where
  "valid_Order E order =
    (utf8_valid (order_id_value (Order.order_id order))
     \<and> utf8_valid (symbol_value (Order.symbol order))
     \<and> valid_name (order_sides E) (order_side_string (Order.order_side order))
     \<and> valid_name (order_types E) (order_type_string (Order.order_type order))
     \<and> (case Order.price order of None \<Rightarrow> True | Some p \<Rightarrow> valid_decimal (price_str p))
     \<and> (case Order.label order of None \<Rightarrow> True
          | Some l \<Rightarrow> utf8_valid (label_value l) \<and> label_value l \<noteq> NONE)
     \<and> valid_name (times_in_force E) (time_in_force_string (Order.time_in_force order))
     \<and> valid_time (Order.expire_time order)
     \<and> valid_time (Order.timestamp order)
     \<and> utf8_valid (guid_value (Order.init_id order)))"

definition valid_leg :: "enums \<Rightarrow> Order option \<Rightarrow> bool" where
  "valid_leg E leg = (case leg of None \<Rightarrow> True | Some order \<Rightarrow> valid_Order E order)"

fun valid_Command :: "enums \<Rightarrow> Command \<Rightarrow> bool" where
  "valid_Command E (CollateralInquiry command_id command_timestamp) =
     (valid_GUID command_id \<and> valid_time command_timestamp)"
| "valid_Command E (SubmitOrder trader_id strategy_id position_id order' command_id
      command_timestamp) =
     (valid_GUID command_id \<and> valid_time command_timestamp
      \<and> utf8_valid (trader_id_value trader_id) \<and> utf8_valid (strategy_id_value strategy_id)
      \<and> utf8_valid (position_id_value position_id) \<and> valid_leg E order')"
| "valid_Command E (SubmitAtomicOrder trader_id strategy_id position_id atomic_order command_id
      command_timestamp) =
     (valid_GUID command_id \<and> valid_time command_timestamp
      \<and> utf8_valid (trader_id_value trader_id) \<and> utf8_valid (strategy_id_value strategy_id)
      \<and> utf8_valid (position_id_value position_id)
      \<and> valid_leg E (entry atomic_order) \<and> valid_leg E (stop_loss atomic_order)
      \<and> valid_leg E (take_profit atomic_order))"
| "valid_Command E (ModifyOrder trader_id strategy_id order_id' modified_price command_id
      command_timestamp) =
     (valid_GUID command_id \<and> valid_time command_timestamp
      \<and> utf8_valid (trader_id_value trader_id) \<and> utf8_valid (strategy_id_value strategy_id)
      \<and> utf8_valid (order_id_value order_id') \<and> valid_decimal (price_str modified_price))"
| "valid_Command E (CancelOrder trader_id strategy_id order_id' cancel_reason command_id
      command_timestamp) =
     (valid_GUID command_id \<and> valid_time command_timestamp
      \<and> utf8_valid (trader_id_value trader_id) \<and> utf8_valid (strategy_id_value strategy_id)
      \<and> utf8_valid (order_id_value order_id')
      \<and> utf8_valid (valid_string_value cancel_reason))"

fun valid_Event :: "enums \<Rightarrow> Event \<Rightarrow> bool" where
  "valid_Event E (AccountEvent account_id broker account_number currency cash_balance
      cash_start_day cash_activity_day margin_used_liquidation margin_used_maintenance
      margin_ratio margin_call_status event_id event_timestamp) =
     (valid_GUID event_id \<and> valid_time event_timestamp
      \<and> utf8_valid (account_id_value account_id)
      \<and> valid_name (brokers E) (broker_string broker)
      \<and> utf8_valid (account_number_value account_number)
      \<and> valid_name (currencies E) (currency_string currency)
      \<and> valid_decimal (money_str cash_balance) \<and> valid_decimal (money_str cash_start_day)
      \<and> valid_decimal (money_str cash_activity_day)
      \<and> valid_decimal (money_str margin_used_liquidation)
      \<and> valid_decimal (money_str margin_used_maintenance)
      \<and> valid_decimal (decimal_str margin_ratio)
      \<and> utf8_valid (valid_string_value margin_call_status))"
| "valid_Event E (OrderInitialized order_id' symbol' label' order_side' order_type' quantity'
      price' time_in_force' expire_time' event_id event_timestamp) =
     (valid_GUID event_id \<and> valid_time event_timestamp
      \<and> utf8_valid (order_id_value order_id') \<and> utf8_valid (symbol_value symbol')
      \<and> utf8_valid (label_value label')
      \<and> valid_name (order_sides E) (order_side_string order_side')
      \<and> valid_name (order_types E) (order_type_string order_type')
      \<and> valid_decimal (price_str price')
      \<and> valid_name (times_in_force E) (time_in_force_string time_in_force')
      \<and> valid_time expire_time')"
| "valid_Event E (OrderSubmitted order_id' submitted_time event_id event_timestamp) =
     (valid_GUID event_id \<and> valid_time event_timestamp
      \<and> utf8_valid (order_id_value order_id') \<and> valid_time submitted_time)"
| "valid_Event E (OrderAccepted order_id' accepted_time event_id event_timestamp) =
     (valid_GUID event_id \<and> valid_time event_timestamp
      \<and> utf8_valid (order_id_value order_id') \<and> valid_time accepted_time)"
| "valid_Event E (OrderRejected order_id' rejected_time rejected_reason event_id
      event_timestamp) =
     (valid_GUID event_id \<and> valid_time event_timestamp
      \<and> utf8_valid (order_id_value order_id') \<and> valid_time rejected_time
      \<and> utf8_valid (valid_string_value rejected_reason))"
| "valid_Event E (OrderWorking order_id' order_id_broker symbol' label' order_side' order_type'
      quantity' price' time_in_force' working_time event_id event_timestamp expire_time') =
     (valid_GUID event_id \<and> valid_time event_timestamp
      \<and> utf8_valid (order_id_value order_id') \<and> utf8_valid (order_id_value order_id_broker)
      \<and> utf8_valid (symbol_value symbol') \<and> utf8_valid (label_value label')
      \<and> valid_name (order_sides E) (order_side_string order_side')
      \<and> valid_name (order_types E) (order_type_string order_type')
      \<and> valid_decimal (price_str price')
      \<and> valid_name (times_in_force E) (time_in_force_string time_in_force')
      \<and> valid_time working_time \<and> valid_time expire_time')"
| "valid_Event E (OrderCancelled order_id' cancelled_time event_id event_timestamp) =
     (valid_GUID event_id \<and> valid_time event_timestamp
      \<and> utf8_valid (order_id_value order_id') \<and> valid_time cancelled_time)"
| "valid_Event E (OrderCancelReject order_id' cancel_reject_time cancel_reject_response
      cancel_reject_reason event_id event_timestamp) =
     (valid_GUID event_id \<and> valid_time event_timestamp
      \<and> utf8_valid (order_id_value order_id') \<and> valid_time cancel_reject_time
      \<and> utf8_valid (valid_string_value cancel_reject_response)
      \<and> utf8_valid (valid_string_value cancel_reject_reason))"
| "valid_Event E (OrderModified order_id' order_id_broker modified_price modified_time event_id
      event_timestamp) =
     (valid_GUID event_id \<and> valid_time event_timestamp
      \<and> utf8_valid (order_id_value order_id') \<and> utf8_valid (order_id_value order_id_broker)
      \<and> valid_decimal (price_str modified_price) \<and> valid_time modified_time)"
| "valid_Event E (OrderExpired order_id' expired_time event_id event_timestamp) =
     (valid_GUID event_id \<and> valid_time event_timestamp
      \<and> utf8_valid (order_id_value order_id') \<and> valid_time expired_time)"
| "valid_Event E (OrderPartiallyFilled order_id' execution_id execution_ticket symbol'
      order_side' filled_quantity leaves_quantity average_price execution_time event_id
      event_timestamp) =
     (valid_GUID event_id \<and> valid_time event_timestamp
      \<and> utf8_valid (order_id_value order_id') \<and> utf8_valid (execution_id_value execution_id)
      \<and> utf8_valid (execution_ticket_value execution_ticket)
      \<and> utf8_valid (symbol_value symbol')
      \<and> valid_name (order_sides E) (order_side_string order_side')
      \<and> valid_decimal (price_str average_price) \<and> valid_time execution_time)"
| "valid_Event E (OrderFilled order_id' execution_id execution_ticket symbol' order_side'
      filled_quantity average_price execution_time event_id event_timestamp) =
     (valid_GUID event_id \<and> valid_time event_timestamp
      \<and> utf8_valid (order_id_value order_id') \<and> utf8_valid (execution_id_value execution_id)
      \<and> utf8_valid (execution_ticket_value execution_ticket)
      \<and> utf8_valid (symbol_value symbol')
      \<and> valid_name (order_sides E) (order_side_string order_side')
      \<and> valid_decimal (price_str average_price) \<and> valid_time execution_time)"

subsection \<open>What the decoders reproduce\<close>

text \<open>
  A decoded order is the encoded one with the identifier its constructor gave it; a decoded
  command is the encoded one with its nested orders decoded; a decoded account event is the
  encoded one with the margin call status that \<open>deserialize\<close> writes.
\<close>

definition decoded_Order :: "GUID \<Rightarrow> Order option \<Rightarrow> Order option" where
  "decoded_Order g leg = map_option (\<lambda>order. order\<lparr>init_id := g\<rparr>) leg"

fun decoded_Command :: "(nat \<Rightarrow> GUID) \<Rightarrow> Command \<Rightarrow> Command" where
  "decoded_Command g (SubmitOrder trader_id strategy_id position_id order' command_id
      command_timestamp) =
     SubmitOrder trader_id strategy_id position_id (decoded_Order (g 0) order') command_id
       command_timestamp"
| "decoded_Command g (SubmitAtomicOrder trader_id strategy_id position_id atomic_order
      command_id command_timestamp) =
     SubmitAtomicOrder trader_id strategy_id position_id
       (AtomicOrder (decoded_Order (g 0) (entry atomic_order))
          (decoded_Order (g 1) (stop_loss atomic_order))
          (decoded_Order (g 2) (take_profit atomic_order)))
       command_id command_timestamp"
| "decoded_Command g c = c"

fun decoded_Event :: "Event \<Rightarrow> Event" where
  "decoded_Event (AccountEvent account_id broker account_number currency cash_balance
      cash_start_day cash_activity_day margin_used_liquidation margin_used_maintenance
      margin_ratio margin_call_status event_id event_timestamp) =
     AccountEvent account_id broker account_number currency cash_balance cash_start_day
       cash_activity_day margin_used_liquidation margin_used_maintenance margin_ratio
       (ValidString NONE) event_id event_timestamp"
| "decoded_Event e = e"

fun is_OrderInitialized :: "Event \<Rightarrow> bool" where
  "is_OrderInitialized (OrderInitialized a b c d e f g h i j k) = True"
| "is_OrderInitialized _ = False"

text \<open>What the loop of the command decoder stores for an item of the unpacked map.\<close>

fun decoded_item :: "pyobj \<times> pyobj \<Rightarrow> pyobj \<times> pyobj" where
  "decoded_item (k, v) =
     ((case k of PBytes ks \<Rightarrow> PStr ks | _ \<Rightarrow> k),
      (if k \<in> set order_keys then v else (case v of PBytes b \<Rightarrow> PStr b | _ \<Rightarrow> v)))"

subsection \<open>The encoding rules of the wire protocol\<close>

text \<open>
  The rules as the specification words them: the fields that hold a quantity and the
  fields that hold a price or an amount of money, and, for each kind of message, the
  quantities and the decimal values it carries under those names.
\<close>

definition quantity_fields :: "string list" where
  "quantity_fields = [QUANTITY, FILLED_QUANTITY, LEAVES_QUANTITY]"

definition decimal_fields :: "string list" where
  "decimal_fields = [PRICE, MODIFIED_PRICE, AVERAGE_PRICE, CASH_BALANCE, CASH_START_DAY,
     CASH_ACTIVITY_DAY, MARGIN_USED_LIQUIDATION, MARGIN_USED_MAINTENANCE]"

datatype message = OrderMessage Order | CommandMessage Command | EventMessage Event
  | InstrumentMessage Instrument

fun message_package :: "message \<Rightarrow> error + package" where
  "message_package (OrderMessage order) = Inr (Order_package order)"
| "message_package (CommandMessage command) = Command_package command"
| "message_package (EventMessage event) = Inr (Event_package event)"
| "message_package (InstrumentMessage instrument) = Inr (Instrument_package instrument)"

fun quantities :: "message \<Rightarrow> (string \<times> Quantity) list" where
  "quantities (OrderMessage order) = [(QUANTITY, Order.quantity order)]"
| "quantities (EventMessage (OrderInitialized order_id' symbol' label' order_side' order_type'
      quantity' price' time_in_force' expire_time' event_id event_timestamp)) =
     [(QUANTITY, quantity')]"
| "quantities (EventMessage (OrderWorking order_id' order_id_broker symbol' label' order_side'
      order_type' quantity' price' time_in_force' working_time event_id event_timestamp
      expire_time')) =
     [(QUANTITY, quantity')]"
| "quantities (EventMessage (OrderPartiallyFilled order_id' execution_id execution_ticket
      symbol' order_side' filled_quantity leaves_quantity average_price execution_time
      event_id event_timestamp)) =
     [(FILLED_QUANTITY, filled_quantity), (LEAVES_QUANTITY, leaves_quantity)]"
| "quantities (EventMessage (OrderFilled order_id' execution_id execution_ticket symbol'
      order_side' filled_quantity average_price execution_time event_id event_timestamp)) =
     [(FILLED_QUANTITY, filled_quantity)]"
| "quantities _ = []"

fun decimals :: "message \<Rightarrow> (string \<times> string) list" where
  "decimals (OrderMessage order) =
     (case Order.price order of None \<Rightarrow> [] | Some p \<Rightarrow> [(PRICE, price_str p)])"
| "decimals (CommandMessage (ModifyOrder trader_id strategy_id order_id' modified_price
      command_id command_timestamp)) =
     [(MODIFIED_PRICE, price_str modified_price)]"
| "decimals (EventMessage (AccountEvent account_id broker account_number currency cash_balance
      cash_start_day cash_activity_day margin_used_liquidation margin_used_maintenance
      margin_ratio margin_call_status event_id event_timestamp)) =
     [(CASH_BALANCE, money_str cash_balance), (CASH_START_DAY, money_str cash_start_day),
      (CASH_ACTIVITY_DAY, money_str cash_activity_day),
      (MARGIN_USED_LIQUIDATION, money_str margin_used_liquidation),
      (MARGIN_USED_MAINTENANCE, money_str margin_used_maintenance)]"
| "decimals (EventMessage (OrderInitialized order_id' symbol' label' order_side' order_type'
      quantity' price' time_in_force' expire_time' event_id event_timestamp)) =
     [(PRICE, price_str price')]"
| "decimals (EventMessage (OrderWorking order_id' order_id_broker symbol' label' order_side'
      order_type' quantity' price' time_in_force' working_time event_id event_timestamp
      expire_time')) =
     [(PRICE, price_str price')]"
| "decimals (EventMessage (OrderModified order_id' order_id_broker modified_price
      modified_time event_id event_timestamp)) =
     [(MODIFIED_PRICE, price_str modified_price)]"
| "decimals (EventMessage (OrderPartiallyFilled order_id' execution_id execution_ticket
      symbol' order_side' filled_quantity leaves_quantity average_price execution_time
      event_id event_timestamp)) =
     [(AVERAGE_PRICE, price_str average_price)]"
| "decimals (EventMessage (OrderFilled order_id' execution_id execution_ticket symbol'
      order_side' filled_quantity average_price execution_time event_id event_timestamp)) =
     [(AVERAGE_PRICE, price_str average_price)]"
| "decimals _ = []"

fun is_VInt :: "pkgval \<Rightarrow> bool" where
  "is_VInt (VInt i) = True"
| "is_VInt _ = False"

fun is_VStr :: "pkgval \<Rightarrow> bool" where
  "is_VStr (VStr s) = True"
| "is_VStr _ = False"

section \<open>The execution client\<close>

text \<open>
  Modelled from the spec: the implementation of \<open>ExecutionClient\<close> is not part of the
  sources at hand, only the declaration of its fields and methods is. The state below has
  the declared registries \<open>_order_book\<close>, \<open>_order_strategy_index\<close>, \<open>_orders_active\<close>
  and \<open>_orders_completed\<close> and the counter \<open>event_count\<close>; the lifecycle state that the
  client derives for each order is \<open>order_states\<close>. The broker adapter, the portfolio, the
  strategies and the logger are external collaborators and have no part in the registries.
\<close>

datatype OrderStatus = Initialized | Submitted | Accepted | Working | PartiallyFilled
  | Filled | Cancelled | Expired | Rejected

fun terminal :: "OrderStatus \<Rightarrow> bool" where
  "terminal Filled = True"
| "terminal Cancelled = True"
| "terminal Expired = True"
| "terminal Rejected = True"
| "terminal _ = False"

record OrderState =
  status :: OrderStatus
  filled :: int

record ExecutionClient =
  order_book :: "OrderId \<rightharpoonup> Order"
  order_strategy_index :: "OrderId \<rightharpoonup> StrategyId"
  order_states :: "OrderId \<rightharpoonup> OrderState"
  orders_active :: "OrderId \<rightharpoonup> Order"
  orders_completed :: "OrderId \<rightharpoonup> Order"
  event_count :: int

definition new_client :: ExecutionClient where
  "new_client = \<lparr>order_book = Map.empty, order_strategy_index = Map.empty,
     order_states = Map.empty, orders_active = Map.empty, orders_completed = Map.empty,
     event_count = 0\<rparr>"

text \<open>
  Modelled from the spec: the lifecycle of an order.
  \<open>Initialized \<rightarrow> Submitted \<rightarrow> Accepted \<rightarrow> Working \<rightarrow> {PartiallyFilled}* \<rightarrow> Filled\<close>, with side
  exits to \<open>Rejected\<close> (only from \<open>Submitted\<close>), \<open>Cancelled\<close> (from \<open>Accepted\<close>, \<open>Working\<close>,
  \<open>PartiallyFilled\<close>) and \<open>Expired\<close> (from \<open>Working\<close>). \<open>OrderCancelReject\<close> may occur in
  any state that is not terminal and \<open>OrderModified\<close> in \<open>Accepted\<close> or \<open>Working\<close>; neither
  changes the state. A partial fill accumulates the filled quantity, and the order is
  \<open>Filled\<close> once the leaves quantity \<open>quantity - filled\<close> reaches zero. \<open>None\<close> is an event
  whose preconditions are not met: it is rejected and changes nothing.
\<close>

fun apply_event :: "Order \<Rightarrow> OrderState \<Rightarrow> Event \<Rightarrow> OrderState option" where
  "apply_event ord st (OrderSubmitted oid t eid ts) =
     (if status st = Initialized then Some (st\<lparr>status := Submitted\<rparr>) else None)"
| "apply_event ord st (OrderAccepted oid t eid ts) =
     (if status st = Submitted then Some (st\<lparr>status := Accepted\<rparr>) else None)"
| "apply_event ord st (OrderRejected oid t reason eid ts) =
     (if status st = Submitted then Some (st\<lparr>status := Rejected\<rparr>) else None)"
| "apply_event ord st (OrderWorking oid boid smb lab side typ qty px tif t eid ts ex) =
     (if status st = Accepted then Some (st\<lparr>status := Working\<rparr>) else None)"
| "apply_event ord st (OrderModified oid boid px t eid ts) =
     (if status st = Accepted \<or> status st = Working then Some st else None)"
| "apply_event ord st (OrderCancelReject oid t response reason eid ts) =
     (if terminal (status st) then None else Some st)"
| "apply_event ord st (OrderCancelled oid t eid ts) =
     (if status st = Accepted \<or> status st = Working \<or> status st = PartiallyFilled
      then Some (st\<lparr>status := Cancelled\<rparr>) else None)"
| "apply_event ord st (OrderExpired oid t eid ts) =
     (if status st = Working then Some (st\<lparr>status := Expired\<rparr>) else None)"
| "apply_event ord st (OrderPartiallyFilled oid xid xt smb side fq lq px t eid ts) =
     (if status st = Working \<or> status st = PartiallyFilled then
        (let f = filled st + quantity_value fq;
             leaves = quantity_value (Order.quantity ord) - f
         in if leaves < 0 then None
            else if leaves = 0 then Some \<lparr>status = Filled, filled = f\<rparr>
            else Some \<lparr>status = PartiallyFilled, filled = f\<rparr>)
      else None)"
| "apply_event ord st (OrderFilled oid xid xt smb side fq px t eid ts) =
     (if status st = Working \<or> status st = PartiallyFilled
      then Some \<lparr>status = Filled, filled = quantity_value (Order.quantity ord)\<rparr> else None)"
| "apply_event ord st (OrderInitialized oid smb lab side typ qty px tif ex eid ts) =
     (if status st = Initialized then Some st else None)"
| "apply_event ord st (AccountEvent a b n c m1 m2 m3 m4 m5 r s eid ts) = None"

fun event_order_id :: "Event \<Rightarrow> OrderId option" where
  "event_order_id (AccountEvent a b n c m1 m2 m3 m4 m5 r s eid ts) = None"
| "event_order_id (OrderInitialized oid smb lab side typ qty px tif ex eid ts) = Some oid"
| "event_order_id (OrderSubmitted oid t eid ts) = Some oid"
| "event_order_id (OrderAccepted oid t eid ts) = Some oid"
| "event_order_id (OrderRejected oid t reason eid ts) = Some oid"
| "event_order_id (OrderWorking oid boid smb lab side typ qty px tif t eid ts ex) = Some oid"
| "event_order_id (OrderCancelled oid t eid ts) = Some oid"
| "event_order_id (OrderCancelReject oid t response reason eid ts) = Some oid"
| "event_order_id (OrderModified oid boid px t eid ts) = Some oid"
| "event_order_id (OrderExpired oid t eid ts) = Some oid"
| "event_order_id (OrderPartiallyFilled oid xid xt smb side fq lq px t eid ts) = Some oid"
| "event_order_id (OrderFilled oid xid xt smb side fq px t eid ts) = Some oid"

text \<open>
  Modelled from the spec: \<open>_register_order\<close>. An order is registered with its owning
  strategy and becomes active. An order identifier is unique within the lifetime of a
  client and, once registered, never reassigned: registering an identifier that the order
  book already holds is a precondition violation and changes nothing.
\<close>

definition register_order ::
    "ExecutionClient \<Rightarrow> Order \<Rightarrow> StrategyId \<Rightarrow> ExecutionClient \<times> error option" where
  "register_order c ord strategy_id =
    (let oid = Order.order_id ord in
     if oid \<in> dom (order_book c) then (c, Some (PreconditionFailed ''order.id''))
     else (c\<lparr>order_book := (order_book c)(oid \<mapsto> ord),
              order_strategy_index := (order_strategy_index c)(oid \<mapsto> strategy_id),
              order_states := (order_states c)(oid \<mapsto> \<lparr>status = Initialized, filled = 0\<rparr>),
              orders_active := (orders_active c)(oid \<mapsto> ord)\<rparr>, None))"

text \<open>The legs of an atomic order that are present are registered one after the other.\<close>

fun register_orders ::
    "ExecutionClient \<Rightarrow> Order option list \<Rightarrow> StrategyId \<Rightarrow> ExecutionClient \<times> error option" where
  "register_orders c [] strategy_id = (c, None)"
| "register_orders c (None # legs) strategy_id = register_orders c legs strategy_id"
| "register_orders c (Some ord # legs) strategy_id =
     (case register_order c ord strategy_id of
        (c', None) \<Rightarrow> register_orders c' legs strategy_id
      | (c', Some e) \<Rightarrow> (c', Some e))"

text \<open>
  Modelled from the spec: \<open>execute_command\<close>. For \<open>SubmitOrder\<close> and \<open>SubmitAtomicOrder\<close> the
  client registers the order or orders before it forwards the command to the adapter; the
  other commands are forwarded only. The result is the state of the client and the error
  raised, if any.
\<close>

fun execute_command :: "ExecutionClient \<Rightarrow> Command \<Rightarrow> ExecutionClient \<times> error option" where
  "execute_command c (SubmitOrder trader_id strategy_id position_id None command_id
      command_timestamp) = (c, Some (PreconditionFailed ''order''))"
| "execute_command c (SubmitOrder trader_id strategy_id position_id (Some ord) command_id
      command_timestamp) = register_order c ord strategy_id"
| "execute_command c (SubmitAtomicOrder trader_id strategy_id position_id atomic_order
      command_id command_timestamp) =
     (case entry atomic_order of
        None \<Rightarrow> (c, Some (PreconditionFailed ''entry''))
      | Some ord \<Rightarrow>
          register_orders c [Some ord, stop_loss atomic_order, take_profit atomic_order]
            strategy_id)"
| "execute_command c _ = (c, None)"

text \<open>
  Modelled from the spec: \<open>handle_event\<close>. The client looks the order up by its identifier;
  an event for an unknown order is dropped. For a known order it applies the transition of
  the lifecycle, moves the order from the active to the completed registry when it becomes
  terminal, and increments \<open>event_count\<close>. An event whose transition is rejected is
  dropped and changes nothing. An account event touches no registry.
\<close>

definition handle_event :: "ExecutionClient \<Rightarrow> Event \<Rightarrow> ExecutionClient" where
  "handle_event c event =
    (case event_order_id event of
       None \<Rightarrow> c\<lparr>event_count := event_count c + 1\<rparr>
     | Some oid \<Rightarrow>
        (case (order_book c oid, order_states c oid) of
           (Some ord, Some st) \<Rightarrow>
             (case apply_event ord st event of
                None \<Rightarrow> c
              | Some st' \<Rightarrow>
                 (let c1 = c\<lparr>order_states := (order_states c)(oid \<mapsto> st')\<rparr>;
                      c2 = (if terminal (status st')
                            then c1\<lparr>orders_active := (orders_active c1)(oid := None),
                                    orders_completed := (orders_completed c1)(oid \<mapsto> ord)\<rparr>
                            else c1)
                  in c2\<lparr>event_count := event_count c2 + 1\<rparr>))
         | _ \<Rightarrow> c))"

text \<open>A client is driven by commands and events, one at a time, in arrival order.\<close>

datatype action = Execute Command | Handle Event

fun step :: "ExecutionClient \<Rightarrow> action \<Rightarrow> ExecutionClient" where
  "step c (Execute command) = fst (execute_command c command)"
| "step c (Handle event) = handle_event c event"

definition run :: "ExecutionClient \<Rightarrow> action list \<Rightarrow> ExecutionClient" where
  "run c actions = foldl step c actions"

definition order_active :: "ExecutionClient \<Rightarrow> OrderId \<Rightarrow> bool" where
  "order_active c oid = (oid \<in> dom (orders_active c))"

definition order_complete :: "ExecutionClient \<Rightarrow> OrderId \<Rightarrow> bool" where
  "order_complete c oid = (oid \<in> dom (orders_completed c))"

text \<open>A packed value decodes under \<open>raw=False\<close> when its strings are well-formed UTF-8.\<close>

definition utf8_val :: "pkgval \<Rightarrow> bool" where
  "utf8_val v = (case v of VInt i \<Rightarrow> True | VStr s \<Rightarrow> utf8_valid s | VBytes b \<Rightarrow> utf8_valid b)"


text \<open>
  An item of the unpacked map that the loop of the command decoder can store: the key is a
  byte string that decodes, and so is the value unless the key is one of the order keys.
\<close>

fun decodable :: "pyobj \<times> pyobj \<Rightarrow> bool" where
  "decodable (k, v) =
     ((case k of PBytes ks \<Rightarrow> utf8_valid ks | _ \<Rightarrow> False)
      \<and> (k \<in> set order_keys \<or> (case v of PBytes b \<Rightarrow> utf8_valid b | _ \<Rightarrow> True)))"

text \<open>What the command decoder holds in \<open>unpacked\<close> for an item of a package.\<close>

definition command_item :: "string \<times> pkgval \<Rightarrow> pyobj \<times> pyobj" where
  "command_item kv = decoded_item (unpacked_item True kv)"

text \<open>\<open>event.__class__.__name__\<close>, \<open>event.id\<close> and \<open>event.timestamp\<close>.\<close>

fun Event_class_name :: "Event \<Rightarrow> string" where
  "Event_class_name (AccountEvent a b n c m1 m2 m3 m4 m5 r s eid ts) = ''AccountEvent''"
| "Event_class_name (OrderInitialized oid smb lab side typ qty px tif ex eid ts) = ''OrderInitialized''"
| "Event_class_name (OrderSubmitted oid t eid ts) = ''OrderSubmitted''"
| "Event_class_name (OrderAccepted oid t eid ts) = ''OrderAccepted''"
| "Event_class_name (OrderRejected oid t reason eid ts) = ''OrderRejected''"
| "Event_class_name (OrderWorking oid boid smb lab side typ qty px tif t eid ts ex) = ''OrderWorking''"
| "Event_class_name (OrderCancelled oid t eid ts) = ''OrderCancelled''"
| "Event_class_name (OrderCancelReject oid t response reason eid ts) = ''OrderCancelReject''"
| "Event_class_name (OrderModified oid boid px t eid ts) = ''OrderModified''"
| "Event_class_name (OrderExpired oid t eid ts) = ''OrderExpired''"
| "Event_class_name (OrderPartiallyFilled oid xid xt smb side fq lq px t eid ts) = ''OrderPartiallyFilled''"
| "Event_class_name (OrderFilled oid xid xt smb side fq px t eid ts) = ''OrderFilled''"

fun Event_id :: "Event \<Rightarrow> GUID" where
  "Event_id (AccountEvent a b n c m1 m2 m3 m4 m5 r s eid ts) = eid"
| "Event_id (OrderInitialized oid smb lab side typ qty px tif ex eid ts) = eid"
| "Event_id (OrderSubmitted oid t eid ts) = eid"
| "Event_id (OrderAccepted oid t eid ts) = eid"
| "Event_id (OrderRejected oid t reason eid ts) = eid"
| "Event_id (OrderWorking oid boid smb lab side typ qty px tif t eid ts ex) = eid"
| "Event_id (OrderCancelled oid t eid ts) = eid"
| "Event_id (OrderCancelReject oid t response reason eid ts) = eid"
| "Event_id (OrderModified oid boid px t eid ts) = eid"
| "Event_id (OrderExpired oid t eid ts) = eid"
| "Event_id (OrderPartiallyFilled oid xid xt smb side fq lq px t eid ts) = eid"
| "Event_id (OrderFilled oid xid xt smb side fq px t eid ts) = eid"

fun Event_timestamp :: "Event \<Rightarrow> datetime option" where
  "Event_timestamp (AccountEvent a b n c m1 m2 m3 m4 m5 r s eid ts) = ts"
| "Event_timestamp (OrderInitialized oid smb lab side typ qty px tif ex eid ts) = ts"
| "Event_timestamp (OrderSubmitted oid t eid ts) = ts"
| "Event_timestamp (OrderAccepted oid t eid ts) = ts"
| "Event_timestamp (OrderRejected oid t reason eid ts) = ts"
| "Event_timestamp (OrderWorking oid boid smb lab side typ qty px tif t eid ts ex) = ts"
| "Event_timestamp (OrderCancelled oid t eid ts) = ts"
| "Event_timestamp (OrderCancelReject oid t response reason eid ts) = ts"
| "Event_timestamp (OrderModified oid boid px t eid ts) = ts"
| "Event_timestamp (OrderExpired oid t eid ts) = ts"
| "Event_timestamp (OrderPartiallyFilled oid xid xt smb side fq lq px t eid ts) = ts"
| "Event_timestamp (OrderFilled oid xid xt smb side fq px t eid ts) = ts"

subsection \<open>Packages that can be packed\<close>

text \<open>
  \<open>packb\<close> succeeds on a package whose integers fit 64 bits and whose strings are shorter
  than $2^{32}$ bytes; \<open>package_size\<close> bounds the length of the result.
\<close>

fun val_ok :: "pkgval \<Rightarrow> bool" where
  "val_ok (VInt i) = (- 0x8000000000000000 \<le> i \<and> i \<le> 0xffffffffffffffff)"
| "val_ok (VStr s) = (length s \<le> 0xffffffff)"
| "val_ok (VBytes b) = (length b \<le> 0xffffffff)"

fun val_size :: "pkgval \<Rightarrow> nat" where
  "val_size (VInt i) = 9"
| "val_size (VStr s) = length s + 5"
| "val_size (VBytes b) = length b + 5"

definition packable :: "package \<Rightarrow> bool" where
  "packable pkg = (length pkg \<le> 0xffffffff
     \<and> list_all (\<lambda>kv. length (fst kv) \<le> 0xffffffff \<and> val_ok (snd kv)) pkg)"

definition package_size :: "package \<Rightarrow> nat" where
  "package_size pkg = 5 + sum_list (map (\<lambda>kv. length (fst kv) + 5 + val_size (snd kv)) pkg)"

subsection \<open>Sample values\<close>

text \<open>
  Concrete enumeration tables, identifiers, a timestamp, an order, events and commands, on
  which the properties below are instantiated.
\<close>

definition E0 :: enums where
  "E0 = \<lparr>order_sides = [''BUY'', ''SELL''], order_types = [''MARKET'', ''LIMIT''],
     times_in_force = [''DAY'', ''GTD''], currencies = [''USD'', ''AUD''], brokers = [''FXCM''],
     security_types = [''FOREX'']\<rparr>"

definition guid0 :: GUID where "guid0 = GUID ''6fa459ea-ee8a-3ca4-894e-db77e160355e''"

definition guid1 :: GUID where "guid1 = GUID ''00000000-0000-0000-0000-000000000001''"

definition time0 :: "datetime option" where "time0 = Some (Datetime ''1970-01-01T00:00:00.000Z'')"

definition event0 :: Event where
  "event0 = OrderInitialized (OrderId ''O-123456'') (Symbol ''AUDUSD.FXCM'') (Label ''S1_E'')
     (OrderSide ''BUY'') (OrderType ''LIMIT'') (Quantity 100000) (Price ''1.10000'')
     (TimeInForce ''DAY'') None guid0 time0"

definition account_event :: "ValidString \<Rightarrow> Event" where
  "account_event margin_call_status =
     AccountEvent (AccountId ''FXCM-123456'') (Broker ''FXCM'') (AccountNumber ''123456'')
       (Currency ''USD'') (Money ''100000.00'') (Money ''100000.00'') (Money ''0.00'')
       (Money ''0.00'') (Money ''0.00'') (Decimal ''0.00'') margin_call_status guid0 time0"

definition order0 :: Order where
  "order0 = \<lparr>order_id = OrderId ''O-123456'', symbol = Symbol ''AUDUSD.FXCM'',
     order_side = OrderSide ''BUY'', order_type = OrderType ''LIMIT'',
     quantity = Quantity 100000, timestamp = time0, price = Some (Price ''1.10000''),
     label = Some (Label ''S1_E''), time_in_force = TimeInForce ''DAY'', expire_time = None,
     init_id = guid0\<rparr>"

definition submit_order :: "Order \<Rightarrow> Command" where
  "submit_order order =
     SubmitOrder (TraderId ''Trader-001'') (StrategyId ''S1'') (PositionId ''P-123456'')
       (Some order) guid0 time0"

definition submit_atomic_order :: "AtomicOrder \<Rightarrow> Command" where
  "submit_atomic_order atomic_order =
     SubmitAtomicOrder (TraderId ''Trader-001'') (StrategyId ''S1'') (PositionId ''P-123456'')
       atomic_order guid0 time0"







section \<open>Properties of the MessagePack model\<close>

lemma bind_Inl [simp]: "bind (Inl e) f = Inl e" by (simp add: bind_def)
lemma bind_Inr [simp]: "bind (Inr x) f = f x" by (simp add: bind_def)

lemma bind_eq_Inr: "bind m f = Inr y \<longleftrightarrow> (\<exists>x. m = Inr x \<and> f x = Inr y)"
  by (cases m) simp_all

lemma length_be_bytes [simp]: "length (be_bytes k n) = k"
  by (induction k arbitrary: n) simp_all

lemma be_nat_snoc: "be_nat (bs @ [c]) = be_nat bs * 256 + of_char c"
  by simp

lemma be_nat_be_bytes: "n < 256 ^ k \<Longrightarrow> be_nat (be_bytes k n) = n"
proof (induction k arbitrary: n)
  case 0
  then show ?case by simp
next
  case (Suc k)
  then have "n div 256 < 256 ^ k"
    by (simp add: less_mult_imp_div_less mult.commute)
  then have "be_nat (be_bytes k (n div 256)) = n div 256"
    by (rule Suc.IH)
  then show ?case
    unfolding be_bytes.simps be_nat_snoc by simp
qed

lemma take_bytes_append: "length xs = n \<Longrightarrow> take_bytes n (xs @ r) = Inr (xs, r)"
  by (simp add: take_bytes_def)

lemma read_len_be_bytes: "n < 256 ^ k \<Longrightarrow> read_len k (be_bytes k n @ r) = Inr (n, r)"
  unfolding read_len_def by (simp add: take_bytes_append be_nat_be_bytes del: be_nat.simps)

lemma unpack_raw_append:
  "raw \<or> utf8_valid s \<Longrightarrow>
   unpack_raw raw (length s) (s @ r) = Inr (if raw then PBytes s else PStr s, r)"
  unfolding unpack_raw_def by (auto simp: take_bytes_append)

lemma unpack_head_raw:
  assumes "pack_raw s = Inr bs" and "raw \<or> utf8_valid s"
  shows "unpack_head raw (bs @ r) = Inr (Scalar (if raw then PBytes s else PStr s) r)"
proof -
  consider (tiny) "length s \<le> 0x1f"
    | (r16) "0x1f < length s" "length s \<le> 0xffff"
    | (r32) "0xffff < length s" "length s \<le> 0xffffffff"
    | (big) "0xffffffff < length s"
    by linarith
  then show ?thesis
  proof cases
    case tiny
    then have bs: "bs = char_of (0xa0 + length s) # s"
      using assms(1) by (simp add: pack_raw_def)
    from tiny have m: "(0xa0 + length s) mod 256 = 0xa0 + length s" by simp
    show ?thesis
      unfolding bs unpack_head_def using tiny assms(2)
      by (simp add: m unpack_raw_append del: utf8_valid.simps)
  next
    case r16
    then have bs: "bs = CHR 0xda # be_bytes 2 (length s) @ s"
      using assms(1) by (simp add: pack_raw_def)
    from r16 have lt: "length s < 256 ^ 2" by simp
    show ?thesis
      unfolding bs unpack_head_def using assms(2)
      by (simp add: read_len_be_bytes [OF lt] unpack_raw_append del: utf8_valid.simps be_bytes.simps)
  next
    case r32
    then have bs: "bs = CHR 0xdb # be_bytes 4 (length s) @ s"
      using assms(1) by (simp add: pack_raw_def)
    from r32 have lt: "length s < 256 ^ 4" by simp
    show ?thesis
      unfolding bs unpack_head_def using assms(2)
      by (simp add: read_len_be_bytes [OF lt] unpack_raw_append del: utf8_valid.simps be_bytes.simps)
  next
    case big
    then show ?thesis using assms(1) by (simp add: pack_raw_def)
  qed
qed


lemma be_int_neg:
  assumes "- (2 ^ (8 * k - 1)) \<le> i" and "i < 0" and "0 < k"
  shows "be_int (be_bytes k (nat (i + 2 ^ (8 * k)))) = i"
proof -
  define h :: int where "h = 2 ^ (8 * k - 1)"
  have "8 * k = Suc (8 * k - 1)" using assms(3) by simp
  then have "(2::int) ^ (8 * k) = 2 * 2 ^ (8 * k - 1)"
    by (metis power_Suc)
  then have p: "(2::int) ^ (8 * k) = 2 * h" by (simp add: h_def)
  have q: "(256::int) ^ k = 2 * h"
    using p by (simp add: power_mult)
  have lo: "- h \<le> i" using assms(1) by (simp add: h_def)
  have nn: "0 \<le> i + 2 * h" using lo assms(2) by linarith
  have "int (nat (i + 2 * h)) < 256 ^ k"
    using assms(2) nn q by simp
  then have lt: "nat (i + 2 * h) < 256 ^ k"
    by (metis of_nat_less_iff of_nat_numeral of_nat_power)
  have u: "int (be_nat (be_bytes k (nat (i + 2 * h)))) = i + 2 * h"
    using be_nat_be_bytes [OF lt] nn by (simp del: be_nat.simps)
  show ?thesis
    unfolding be_int_def Let_def length_be_bytes p u q using lo assms(2) by simp
qed

lemma unpack_sint_be_bytes:
  assumes "- (2 ^ (8 * k - 1)) \<le> i" and "i < 0" and "0 < k"
  shows "unpack_sint k (be_bytes k (nat (i + 2 ^ (8 * k))) @ r) = Inr (PInt i, r)"
  unfolding unpack_sint_def by (simp add: take_bytes_append be_int_neg [OF assms])

lemma unpack_uint_be_bytes:
  assumes "0 \<le> i" and "i < 256 ^ k"
  shows "unpack_uint k (be_bytes k (nat i) @ r) = Inr (PInt i, r)"
proof -
  have "nat i < 256 ^ k" using assms by (simp add: nat_less_iff)
  then show ?thesis
    unfolding unpack_uint_def using assms(1)
    by (simp add: take_bytes_append be_nat_be_bytes del: be_nat.simps)
qed

lemma unpack_head_int:
  assumes "pack_int i = Inr bs"
  shows "unpack_head raw (bs @ r) = Inr (Scalar (PInt i) r)"
proof -
  consider (p7) "0 \<le> i" "i < 0x80"
    | (n5) "- 0x20 \<le> i" "i < 0"
    | (u8) "0x80 \<le> i" "i \<le> 0xff"
    | (i8) "- 0x80 \<le> i" "i < - 0x20"
    | (u16) "0xff < i" "i \<le> 0xffff"
    | (i16) "- 0x8000 \<le> i" "i < - 0x80"
    | (u32) "0xffff < i" "i \<le> 0xffffffff"
    | (i32) "- 0x80000000 \<le> i" "i < - 0x8000"
    | (u64) "0xffffffff < i" "i \<le> 0xffffffffffffffff"
    | (i64) "- 0x8000000000000000 \<le> i" "i < - 0x80000000"
    | (out) "i < - 0x8000000000000000 \<or> 0xffffffffffffffff < i"
    by linarith
  then show ?thesis
  proof cases
    case p7
    then have bs: "bs = [char_of (nat i)]" using assms by (simp add: pack_int_def)
    from p7 have m: "nat i mod 256 = nat i" by simp
    show ?thesis unfolding bs unpack_head_def using p7 by (simp add: m Let_def)
  next
    case n5
    then have bs: "bs = [char_of (nat (i + 2 ^ 8))]" using assms by (simp add: pack_int_def)
    from n5 have m: "nat (i + 256) mod 256 = nat (i + 256)" by simp
    from n5 have c: "\<not> nat (i + 256) < 224" "int (nat (i + 256)) = i + 256" by simp_all
    show ?thesis unfolding bs unpack_head_def using n5 c by (simp add: m Let_def)
  next
    case u8
    then have bs: "bs = CHR 0xcc # be_bytes 1 (nat i)" using assms by (simp add: pack_int_def)
    have "unpack_uint 1 (be_bytes 1 (nat i) @ r) = Inr (PInt i, r)"
      using u8 by (intro unpack_uint_be_bytes) simp_all
    then show ?thesis unfolding bs unpack_head_def by (simp del: be_bytes.simps)
  next
    case i8
    then have bs: "bs = CHR 0xd0 # be_bytes 1 (nat (i + 2 ^ 8))"
      using assms by (simp add: pack_int_def)
    have "unpack_sint 1 (be_bytes 1 (nat (i + 2 ^ (8 * 1))) @ r) = Inr (PInt i, r)"
      using i8 by (intro unpack_sint_be_bytes) simp_all
    then show ?thesis unfolding bs unpack_head_def by (simp del: be_bytes.simps)
  next
    case u16
    then have bs: "bs = CHR 0xcd # be_bytes 2 (nat i)" using assms by (simp add: pack_int_def)
    have "unpack_uint 2 (be_bytes 2 (nat i) @ r) = Inr (PInt i, r)"
      using u16 by (intro unpack_uint_be_bytes) simp_all
    then show ?thesis unfolding bs unpack_head_def by (simp del: be_bytes.simps)
  next
    case i16
    then have bs: "bs = CHR 0xd1 # be_bytes 2 (nat (i + 2 ^ 16))"
      using assms by (simp add: pack_int_def)
    have "unpack_sint 2 (be_bytes 2 (nat (i + 2 ^ (8 * 2))) @ r) = Inr (PInt i, r)"
      using i16 by (intro unpack_sint_be_bytes) simp_all
    then show ?thesis unfolding bs unpack_head_def by (simp del: be_bytes.simps)
  next
    case u32
    then have bs: "bs = CHR 0xce # be_bytes 4 (nat i)" using assms by (simp add: pack_int_def)
    have "unpack_uint 4 (be_bytes 4 (nat i) @ r) = Inr (PInt i, r)"
      using u32 by (intro unpack_uint_be_bytes) simp_all
    then show ?thesis unfolding bs unpack_head_def by (simp del: be_bytes.simps)
  next
    case i32
    then have bs: "bs = CHR 0xd2 # be_bytes 4 (nat (i + 2 ^ 32))"
      using assms by (simp add: pack_int_def)
    have "unpack_sint 4 (be_bytes 4 (nat (i + 2 ^ (8 * 4))) @ r) = Inr (PInt i, r)"
      using i32 by (intro unpack_sint_be_bytes) simp_all
    then show ?thesis unfolding bs unpack_head_def by (simp del: be_bytes.simps)
  next
    case u64
    then have bs: "bs = CHR 0xcf # be_bytes 8 (nat i)" using assms by (simp add: pack_int_def)
    have "unpack_uint 8 (be_bytes 8 (nat i) @ r) = Inr (PInt i, r)"
      using u64 by (intro unpack_uint_be_bytes) simp_all
    then show ?thesis unfolding bs unpack_head_def by (simp del: be_bytes.simps)
  next
    case i64
    then have bs: "bs = CHR 0xd3 # be_bytes 8 (nat (i + 2 ^ 64))"
      using assms by (simp add: pack_int_def)
    have "unpack_sint 8 (be_bytes 8 (nat (i + 2 ^ (8 * 8))) @ r) = Inr (PInt i, r)"
      using i64 by (intro unpack_sint_be_bytes) simp_all
    then show ?thesis unfolding bs unpack_head_def by (simp del: be_bytes.simps)
  next
    case out
    then show ?thesis using assms by (auto simp: pack_int_def)
  qed
qed


lemma unpack_head_map:
  assumes "pack_map_header n = Inr bs"
  shows "unpack_head raw (bs @ r) = Inr (MapOf n r)"
proof -
  consider (tiny) "n \<le> 0x0f"
    | (m16) "0x0f < n" "n \<le> 0xffff"
    | (m32) "0xffff < n" "n \<le> 0xffffffff"
    | (big) "0xffffffff < n"
    by linarith
  then show ?thesis
  proof cases
    case tiny
    then have bs: "bs = [char_of (0x80 + n)]" using assms by (simp add: pack_map_header_def)
    from tiny have m: "(0x80 + n) mod 256 = 0x80 + n" by simp
    show ?thesis unfolding bs unpack_head_def using tiny by (simp add: m Let_def)
  next
    case m16
    then have bs: "bs = CHR 0xde # be_bytes 2 n" using assms by (simp add: pack_map_header_def)
    from m16 have lt: "n < 256 ^ 2" by simp
    show ?thesis unfolding bs unpack_head_def
      by (simp add: read_len_be_bytes [OF lt] del: be_bytes.simps)
  next
    case m32
    then have bs: "bs = CHR 0xdf # be_bytes 4 n" using assms by (simp add: pack_map_header_def)
    from m32 have lt: "n < 256 ^ 4" by simp
    show ?thesis unfolding bs unpack_head_def
      by (simp add: read_len_be_bytes [OF lt] del: be_bytes.simps)
  next
    case big
    then show ?thesis using assms by (simp add: pack_map_header_def)
  qed
qed

lemma unpack_obj_key:
  assumes "pack_raw k = Inr bs" and "raw \<or> utf8_valid k"
  shows "unpack_obj (Suc f) raw (bs @ r) = Inr (if raw then PBytes k else PStr k, r)"
  by (simp add: unpack_head_raw [OF assms])

lemma unpack_obj_val:
  assumes "pack_val v = Inr bs" and "raw \<or> utf8_val v"
  shows "unpack_obj (Suc f) raw (bs @ r) = Inr (unpacked_val raw v, r)"
proof (cases v)
  case (VInt i)
  then show ?thesis using assms by (simp add: unpack_head_int)
next
  case (VStr s)
  then have "unpack_head raw (bs @ r) = Inr (Scalar (if raw then PBytes s else PStr s) r)"
    using assms by (intro unpack_head_raw) (simp_all add: utf8_val_def)
  then show ?thesis using VStr by simp
next
  case (VBytes b)
  then have "unpack_head raw (bs @ r) = Inr (Scalar (if raw then PBytes b else PStr b) r)"
    using assms by (intro unpack_head_raw) (simp_all add: utf8_val_def)
  then show ?thesis using VBytes by simp
qed

lemma update_fresh: "k \<notin> fst ` set al \<Longrightarrow> AList.update k v al = al @ [(k, v)]"
  by (induction al) auto

lemma unpack_map_items:
  assumes "pack_items kvs = Inr bs"
    and "distinct (map fst kvs)"
    and "raw \<or> (\<forall>kv \<in> set kvs. utf8_valid (fst kv) \<and> utf8_val (snd kv))"
    and "fst ` set acc \<inter> fst ` unpacked_item raw ` set kvs = {}"
  shows "unpack_map (Suc f) raw (length kvs) acc (bs @ r)
         = Inr (PDict (acc @ map (unpacked_item raw) kvs), r)"
  using assms
proof (induction kvs arbitrary: bs acc)
  case Nil
  then show ?case by simp
next
  case (Cons kv kvs)
  obtain k v where kv: "kv = (k, v)" by (cases kv)
  from Cons.prems(1) obtain a b c where
    a: "pack_raw k = Inr a" and b: "pack_val v = Inr b" and c: "pack_items kvs = Inr c"
    and bs: "bs = a @ b @ c"
    unfolding kv by (auto simp: bind_eq_Inr)
  have vk: "raw \<or> utf8_valid k" and vv: "raw \<or> utf8_val v"
    using Cons.prems(3) kv by auto
  let ?K = "if raw then PBytes k else PStr k"
  have key: "unpack_obj (Suc f) raw (a @ b @ c @ r) = Inr (?K, b @ c @ r)"
    using unpack_obj_key [OF a vk] by simp
  have val: "unpack_obj (Suc f) raw (b @ c @ r) = Inr (unpacked_val raw v, c @ r)"
    using unpack_obj_val [OF b vv] by simp
  have item: "unpacked_item raw kv = (?K, unpacked_val raw v)"
    by (simp add: unpacked_item_def kv)
  have fresh: "?K \<notin> fst ` set acc"
    using Cons.prems(4) item by auto
  have upd: "AList.update ?K (unpacked_val raw v) acc = acc @ [unpacked_item raw kv]"
    using update_fresh [OF fresh] item by simp
  have inj: "fst (unpacked_item raw x) = fst (unpacked_item raw y) \<longleftrightarrow> fst x = fst y" for x y
    by (simp add: unpacked_item_def)
  have "fst (unpacked_item raw kv) \<notin> fst ` unpacked_item raw ` set kvs"
  proof
    assume "fst (unpacked_item raw kv) \<in> fst ` unpacked_item raw ` set kvs"
    then obtain y where y: "y \<in> set kvs"
      and "fst (unpacked_item raw kv) = fst (unpacked_item raw y)"
      by blast
    then have "fst kv = fst y" by (simp only: inj)
    then have "fst kv \<in> fst ` set kvs" using y by simp
    then show False using Cons.prems(2) by simp
  qed
  then have disj: "fst ` set (acc @ [unpacked_item raw kv]) \<inter> fst ` unpacked_item raw ` set kvs = {}"
    using Cons.prems(4) by auto
  have IH: "unpack_map (Suc f) raw (length kvs) (acc @ [unpacked_item raw kv]) (c @ r)
        = Inr (PDict ((acc @ [unpacked_item raw kv]) @ map (unpacked_item raw) kvs), r)"
    using Cons.IH [OF c _ _ disj] Cons.prems(2,3) by auto
  have h: "hashable ?K" by simp
  show ?case
    unfolding bs
    by (simp add: key val h upd IH del: unpack_obj.simps)
qed

lemma unpackb_packb:
  assumes "packb package = Inr bs"
    and "distinct (map fst package)"
    and "raw \<or> (\<forall>kv \<in> set package. utf8_valid (fst kv) \<and> utf8_val (snd kv))"
  shows "unpackb raw bs = Inr (PDict (map (unpacked_item raw) package))"
proof -
  from assms(1) obtain h b where
    h: "pack_map_header (length package) = Inr h" and b: "pack_items package = Inr b"
    and bs: "bs = h @ b"
    unfolding packb_def by (auto simp: bind_eq_Inr)
  have hd: "unpack_head raw (h @ b) = Inr (MapOf (length package) b)"
    using unpack_head_map [OF h] by simp
  have "h \<noteq> []" using h by (auto simp: pack_map_header_def split: if_splits)
  then obtain f where f: "length (h @ b) = Suc f" by (cases h) auto
  have items: "unpack_map (Suc f) raw (length package) [] (b @ []) = Inr (PDict ([] @ map (unpacked_item raw) package), [])"
    using assms(2,3) by (intro unpack_map_items [OF b]) auto
  show ?thesis
    unfolding unpackb_def bs f using hd items by simp
qed

lemma packb_not_empty: "packb package = Inr bs \<Longrightarrow> bs \<noteq> []"
  by (auto simp: packb_def pack_map_header_def bind_eq_Inr split: if_splits)

lemma unpackb_empty: "unpackb raw [] = Inl (UnpackError ''incomplete input'')"
  by (simp add: unpackb_def unpack_head_def)

section \<open>Properties of the codec layer\<close>

text \<open>
  C3. Every decode function, given an empty byte buffer, fails at once with a precondition
  violation and never returns a default object. The decoders of orders, commands and events
  do; the decoder of instruments has no precondition check: it hands the empty buffer to
  \<open>unpackb\<close> and fails there, with the unpacking error.
\<close>

theorem empty_buffer_decoding:
  "MsgPackOrderSerializer_deserialize E g [] = Inl (PreconditionFailed ''order_bytes'')
   \<and> MsgPackCommandSerializer_deserialize E n [] = Inl (PreconditionFailed ''command_bytes'')
   \<and> MsgPackEventSerializer_deserialize E [] = Inl (PreconditionFailed ''event_bytes'')
   \<and> MsgPackInstrumentSerializer_deserialize E [] = Inl (UnpackError ''incomplete input'')"
  by (simp add: MsgPackOrderSerializer_deserialize_def MsgPackCommandSerializer_deserialize_def
      MsgPackEventSerializer_deserialize_def MsgPackInstrumentSerializer_deserialize_def
      Precondition_not_empty_def unpackb_empty)












lemma map_of_unpacked:
  "map_of (map (unpacked_item False) pkg) (PStr k) = map_option (unpacked_val False) (map_of pkg k)"
  by (induction pkg) (auto simp: unpacked_item_def)

lemma getitem_unpacked:
  "getitem (map (unpacked_item False) pkg) k =
     (case map_of pkg k of None \<Rightarrow> Inl (KeyError k) | Some v \<Rightarrow> Inr (unpacked_val False v))"
  by (simp add: getitem_def map_of_unpacked split: option.splits)

lemma field_unpacked:
  "map_of pkg k = Some v \<Longrightarrow> field (map (unpacked_item False) pkg) k f = f (unpacked_val False v)"
  by (simp add: field_def getitem_unpacked)

lemma new_PStr [simp]: "new C (PStr s) = Inr (C s)"
  by (simp add: new_def)

lemma enum_getitem_PStr:
  "s \<in> set names \<Longrightarrow> enum_getitem names C (PStr s) = Inr (C s)"
  by (simp add: enum_getitem_def)

lemma not_timestamp_NONE: "\<not> is_timestamp NONE"
  by (simp add: is_timestamp_def)

lemma not_decimal_NONE: "\<not> is_decimal NONE"
  by (simp add: is_decimal_def is_digit_def)

lemma datetime_roundtrip:
  "valid_time t \<Longrightarrow> convert_string_to_datetime (PStr (convert_datetime_to_string t)) = Inr t"
  using not_timestamp_NONE
  by (cases t) (auto simp: valid_time_def convert_string_to_datetime_def convert_datetime_to_string_def)

lemma new_decimal_PStr: "is_decimal s \<Longrightarrow> new_decimal C (PStr s) = Inr (C s)"
  by (simp add: new_decimal_def)

lemma price_roundtrip:
  "(case p of None \<Rightarrow> True | Some x \<Rightarrow> valid_decimal (price_str x)) \<Longrightarrow>
   convert_string_to_price (PStr (convert_price_to_string p)) = Inr p"
  using not_decimal_NONE
  by (cases p) (auto simp: valid_decimal_def convert_string_to_price_def
      convert_price_to_string_def new_decimal_PStr)

lemma label_roundtrip:
  "(case l of None \<Rightarrow> True | Some x \<Rightarrow> utf8_valid (label_value x) \<and> label_value x \<noteq> NONE) \<Longrightarrow>
   convert_string_to_label (PStr (convert_label_to_string l)) = Inr l"
  by (cases l) (auto simp: convert_string_to_label_def convert_label_to_string_def)

lemma GUID_roundtrip: "valid_GUID g \<Longrightarrow> new_GUID (PStr (guid_value g)) = Inr g"
  by (simp add: valid_GUID_def new_GUID_def UUID_def)

lemma utf8_valid_datetime:
  "valid_time t \<Longrightarrow> utf8_valid (convert_datetime_to_string t)"
  by (cases t) (simp_all add: valid_time_def convert_datetime_to_string_def)

lemma utf8_valid_price:
  "(case p of None \<Rightarrow> True | Some x \<Rightarrow> valid_decimal (price_str x)) \<Longrightarrow>
   utf8_valid (convert_price_to_string p)"
  by (cases p) (simp_all add: valid_decimal_def convert_price_to_string_def)

lemma utf8_valid_label:
  "(case l of None \<Rightarrow> True | Some x \<Rightarrow> utf8_valid (label_value x) \<and> label_value x \<noteq> NONE) \<Longrightarrow>
   utf8_valid (convert_label_to_string l)"
  by (cases l) (simp_all add: convert_label_to_string_def)


lemma utf8_valid_ascii: "\<forall>c \<in> set s. (of_char c :: nat) < 128 \<Longrightarrow> utf8_valid s"
  by (induction s) (simp_all add: Let_def)

lemma Order_package_keys: "distinct (map fst (Order_package order))"
  by (simp add: Order_package_def)

lemma Order_package_utf8:
  assumes "valid_Order E order"
  shows "\<forall>kv \<in> set (Order_package order). utf8_valid (fst kv) \<and> utf8_val (snd kv)"
  using assms
  by (simp add: Order_package_def valid_Order_def valid_name_def utf8_val_def
      utf8_valid_datetime utf8_valid_price utf8_valid_label utf8_valid_ascii
      del: utf8_valid.simps)

lemma Order_unpacked:
  assumes "valid_Order E order" and "packb (Order_package order) = Inr bs"
  shows "unpackb False bs = Inr (PDict (map (unpacked_item False) (Order_package order)))"
  using unpackb_packb [OF assms(2) Order_package_keys] Order_package_utf8 [OF assms(1)]
  by blast

lemma Order_from_unpacked:
  assumes "valid_Order E order" and that: "packb (Order_package order) = Inr bs"
  shows "MsgPackOrderSerializer_deserialize E g bs = Inr (Some (order\<lparr>init_id := g\<rparr>))"
proof -
  let ?d = "map (unpacked_item False) (Order_package order)"
  have ne: "bs \<noteq> []" using that by (rule packb_not_empty)
  have un: "unpackb False bs = Inr (PDict ?d)"
    using assms by (rule Order_unpacked)
  have len: "length ?d \<noteq> 0" by (simp add: Order_package_def)
  have f: "field ?d ID f1 = f1 (PStr (order_id_value (Order.order_id order)))"
    "field ?d SYMBOL f2 = f2 (PStr (symbol_value (Order.symbol order)))"
    "field ?d ORDER_SIDE f3 = f3 (PStr (order_side_string (Order.order_side order)))"
    "field ?d ORDER_TYPE f4 = f4 (PStr (order_type_string (Order.order_type order)))"
    "field ?d QUANTITY f5 = f5 (PInt (quantity_value (Order.quantity order)))"
    "field ?d TIMESTAMP f6 = f6 (PStr (convert_datetime_to_string (Order.timestamp order)))"
    "field ?d PRICE f7 = f7 (PStr (convert_price_to_string (Order.price order)))"
    "field ?d LABEL f8 = f8 (PStr (convert_label_to_string (Order.label order)))"
    "field ?d TIME_IN_FORCE f9 = f9 (PStr (time_in_force_string (Order.time_in_force order)))"
    "field ?d EXPIRE_TIME f10 = f10 (PStr (convert_datetime_to_string (Order.expire_time order)))"
    for f1 :: "pyobj \<Rightarrow> error + 'a" and f2 :: "pyobj \<Rightarrow> error + 'b"
      and f3 :: "pyobj \<Rightarrow> error + 'c" and f4 :: "pyobj \<Rightarrow> error + 'd"
      and f5 :: "pyobj \<Rightarrow> error + 'e" and f6 :: "pyobj \<Rightarrow> error + 'f"
      and f7 :: "pyobj \<Rightarrow> error + 'g" and f8 :: "pyobj \<Rightarrow> error + 'h"
      and f9 :: "pyobj \<Rightarrow> error + 'i" and f10 :: "pyobj \<Rightarrow> error + 'j"
    unfolding field_def getitem_unpacked by (simp_all add: Order_package_def)
  have v: "order_side_string (Order.order_side order) \<in> set (order_sides E)"
    "order_type_string (Order.order_type order) \<in> set (order_types E)"
    "time_in_force_string (Order.time_in_force order) \<in> set (times_in_force E)"
    "valid_time (Order.timestamp order)" "valid_time (Order.expire_time order)"
    "case Order.price order of None \<Rightarrow> True | Some p \<Rightarrow> valid_decimal (price_str p)"
    "case Order.label order of None \<Rightarrow> True
       | Some l \<Rightarrow> utf8_valid (label_value l) \<and> label_value l \<noteq> NONE"
    using assms(1) by (simp_all add: valid_Order_def valid_name_def)
  show ?thesis
    unfolding MsgPackOrderSerializer_deserialize_def
    using ne len
    by (simp add: Precondition_not_empty_def un f new_Quantity_def enum_getitem_PStr v parse_symbol_def
        datetime_roundtrip price_roundtrip label_roundtrip)
qed


lemma decode_items_step:
  assumes "decodable (k, v)"
  shows "decode_items ((k, v) # items) acc
       = decode_items items (AList.update (fst (decoded_item (k, v))) (snd (decoded_item (k, v))) acc)"
proof -
  from assms obtain ks where k: "k = PBytes ks" and ks: "utf8_valid ks"
    by (cases k) auto
  show ?thesis
  proof (cases "k \<in> set order_keys")
    case True
    then show ?thesis using ks by (simp add: k del: utf8_valid.simps)
  next
    case False
    then have v: "case v of PBytes b \<Rightarrow> utf8_valid b | _ \<Rightarrow> True" using assms by simp
    show ?thesis
      using False ks v by (cases v) (simp_all add: k del: utf8_valid.simps)
  qed
qed

lemma decoded_key_inj:
  assumes "decodable x" and "decodable y"
  shows "fst (decoded_item x) = fst (decoded_item y) \<longleftrightarrow> fst x = fst y"
proof -
  obtain k v k' v' where x: "x = (k, v)" and y: "y = (k', v')" by (cases x, cases y)
  from assms obtain ks ks' where "k = PBytes ks" "k' = PBytes ks'"
    unfolding x y by (cases k; cases k') auto
  then show ?thesis by (simp add: x y)
qed

lemma decode_items_ok:
  assumes "distinct (map fst items)"
    and "\<forall>kv \<in> set items. decodable kv"
    and "fst ` set acc \<inter> fst ` decoded_item ` set items = {}"
  shows "decode_items items acc = Inr (acc @ map decoded_item items)"
  using assms
proof (induction items arbitrary: acc)
  case Nil
  then show ?case by simp
next
  case (Cons kv items)
  obtain k v where kv: "kv = (k, v)" by (cases kv)
  have dk: "decodable (k, v)" using Cons.prems(2) kv by simp
  let ?K = "fst (decoded_item (k, v))" and ?V = "snd (decoded_item (k, v))"
  have fresh: "?K \<notin> fst ` set acc" using Cons.prems(3) kv by auto
  have upd: "AList.update ?K ?V acc = acc @ [decoded_item kv]"
    using update_fresh [OF fresh] kv by simp
  have "fst (decoded_item kv) \<notin> fst ` decoded_item ` set items"
  proof
    assume "fst (decoded_item kv) \<in> fst ` decoded_item ` set items"
    then obtain y where y: "y \<in> set items"
      and e: "fst (decoded_item kv) = fst (decoded_item y)"
      by blast
    have "decodable y" using Cons.prems(2) y by simp
    then have "fst kv = fst y" using decoded_key_inj [of kv y] dk kv e by simp
    then have "fst kv \<in> fst ` set items" using y by simp
    then show False using Cons.prems(1) by simp
  qed
  then have disj: "fst ` set (acc @ [decoded_item kv]) \<inter> fst ` decoded_item ` set items = {}"
    using Cons.prems(3) by auto
  have "decode_items items (acc @ [decoded_item kv])
      = Inr ((acc @ [decoded_item kv]) @ map decoded_item items)"
    using Cons.IH [OF _ _ disj] Cons.prems(1,2) by simp
  then show ?case
    unfolding kv decode_items_step [OF dk] upd [unfolded kv] by simp
qed


lemma command_item_simp:
  "command_item (k, v) =
     (PStr k, if PBytes k \<in> set order_keys then unpacked_val True v else unpacked_val False v)"
  by (cases v) (simp_all add: command_item_def unpacked_item_def)

lemma map_of_command_items:
  "map_of (map command_item pkg) (PStr k) =
     map_option (\<lambda>v. if PBytes k \<in> set order_keys then unpacked_val True v
                      else unpacked_val False v) (map_of pkg k)"
  by (induction pkg) (auto simp: command_item_simp)

lemma field_command_items:
  "map_of pkg k = Some v \<Longrightarrow>
   field (map command_item pkg) k f =
     f (if PBytes k \<in> set order_keys then unpacked_val True v else unpacked_val False v)"
  by (simp add: field_def getitem_def map_of_command_items)

lemma map_of_unpacked_raw:
  "map_of (map (unpacked_item True) pkg) (PBytes k) = map_option (unpacked_val True) (map_of pkg k)"
  by (induction pkg) (auto simp: unpacked_item_def)

lemma decodable_unpacked:
  "decodable (unpacked_item True (k, v)) \<longleftrightarrow>
     utf8_valid k \<and> (PBytes k \<in> set order_keys \<or> utf8_val v)"
  by (cases v) (simp_all add: unpacked_item_def utf8_val_def del: utf8_valid.simps)

lemma decode_items_package:
  assumes "distinct (map fst pkg)"
    and "\<forall>kv \<in> set pkg. utf8_valid (fst kv) \<and> (PBytes (fst kv) \<in> set order_keys \<or> utf8_val (snd kv))"
  shows "decode_items (map (unpacked_item True) pkg) [] = Inr (map command_item pkg)"
proof -
  have "map fst (map (unpacked_item True) pkg) = map PBytes (map fst pkg)"
    by (simp add: unpacked_item_def)
  then have d: "distinct (map fst (map (unpacked_item True) pkg))"
    using assms(1) by (simp add: distinct_map inj_on_def)
  have "decodable (unpacked_item True kv)" if "kv \<in> set pkg" for kv
    using assms(2) that decodable_unpacked [of "fst kv" "snd kv"] by simp
  then have a: "\<forall>kv \<in> set (map (unpacked_item True) pkg). decodable kv"
    by simp
  have "decode_items (map (unpacked_item True) pkg) []
      = Inr ([] @ map decoded_item (map (unpacked_item True) pkg))"
    using d a by (intro decode_items_ok) simp_all
  then show ?thesis by (simp add: command_item_def comp_def)
qed

lemma Command_decode:
  assumes "packb pkg = Inr bs"
    and "distinct (map fst pkg)"
    and "\<forall>kv \<in> set pkg. utf8_valid (fst kv) \<and> (PBytes (fst kv) \<in> set order_keys \<or> utf8_val (snd kv))"
    and "map_of pkg TYPE_KEY = Some (VStr COMMAND)"
    and "map_of pkg COMMAND = Some (VStr tag)"
    and "map_of pkg COMMAND_ID = Some (VStr (guid_value command_id))"
    and "map_of pkg COMMAND_TIMESTAMP = Some (VStr (convert_datetime_to_string t))"
    and "valid_GUID command_id" and "valid_time t"
  shows "MsgPackCommandSerializer_deserialize E g bs
       = Command_from_unpacked E g (map command_item pkg) (Some tag) command_id t"
proof -
  have ne: "bs \<noteq> []" using assms(1) by (rule packb_not_empty)
  have un: "unpackb True bs = Inr (PDict (map (unpacked_item True) pkg))"
    using unpackb_packb [OF assms(1,2), of True] by simp
  have ty: "map_of (map (unpacked_item True) pkg) (PBytes ''Type'') = Some (PBytes COMMAND)"
    by (simp add: map_of_unpacked_raw assms(4))
  have lp: "decode_items (map (unpacked_item True) pkg) [] = Inr (map command_item pkg)"
    using assms(2,3) by (rule decode_items_package)
  have nk: "PBytes COMMAND \<notin> set order_keys" "PBytes COMMAND_ID \<notin> set order_keys"
    "PBytes COMMAND_TIMESTAMP \<notin> set order_keys"
    by (simp_all add: order_keys_def)
  have f: "field (map command_item pkg) COMMAND str_var = Inr (Some tag)"
    "field (map command_item pkg) COMMAND_ID new_GUID = Inr command_id"
    "field (map command_item pkg) COMMAND_TIMESTAMP convert_string_to_datetime = Inr t"
    using assms(8,9)
    by (simp_all add: field_command_items [OF assms(5)] field_command_items [OF assms(6)]
        field_command_items [OF assms(7)] nk GUID_roundtrip datetime_roundtrip)
  show ?thesis
    unfolding MsgPackCommandSerializer_deserialize_def
    using ne by (simp add: Precondition_not_empty_def un ty lp f)
qed

lemma packb_empty: "packb [] = Inr [CHR 0x80]"
  by code_simp

lemma unpackb_null: "unpackb raw [CHR 0x80] = Inr (PDict [])"
  using unpackb_packb [OF packb_empty, of raw] by simp

lemma null_order_decodes: "MsgPackOrderSerializer_deserialize E g [CHR 0x80] = Inr None"
  by (simp add: MsgPackOrderSerializer_deserialize_def Precondition_not_empty_def unpackb_null)

lemma leg_roundtrip:
  assumes "valid_leg E leg" and "MsgPackOrderSerializer_serialize leg = Inr bs"
  shows "MsgPackOrderSerializer_deserialize E g bs = Inr (decoded_Order g leg)"
proof (cases leg)
  case None
  then have "bs = [CHR 0x80]"
    using assms(2) by (simp add: MsgPackOrderSerializer_serialize_def packb_empty)
  then show ?thesis using None by (simp add: null_order_decodes decoded_Order_def)
next
  case (Some order)
  then have "valid_Order E order" and "packb (Order_package order) = Inr bs"
    using assms by (simp_all add: valid_leg_def MsgPackOrderSerializer_serialize_def)
  then show ?thesis
    using Some by (simp add: Order_from_unpacked decoded_Order_def)
qed

lemma header_utf8:
  assumes "valid_GUID command_id" and "valid_time t"
  shows "utf8_valid (guid_value command_id)" "utf8_valid (convert_datetime_to_string t)"
  using assms by (simp_all add: valid_GUID_def utf8_valid_datetime)

lemma command_roundtrip:
  assumes "valid_Command E c" and "MsgPackCommandSerializer_serialize c = Inr bs"
  shows "MsgPackCommandSerializer_deserialize E g bs = Inr (decoded_Command g c)"
proof (cases c)
  case (CollateralInquiry cid t)
  let ?pkg = "Command_header cid t @ [(COMMAND, VStr COLLATERAL_INQUIRY)]"
  have v: "valid_GUID cid" "valid_time t" using assms(1) CollateralInquiry by simp_all
  have p: "packb ?pkg = Inr bs"
    using assms(2) CollateralInquiry by (simp add: MsgPackCommandSerializer_serialize_def)
  have "MsgPackCommandSerializer_deserialize E g bs
      = Command_from_unpacked E g (map command_item ?pkg) (Some COLLATERAL_INQUIRY) cid t"
    using p v header_utf8 [OF v]
    by (intro Command_decode)
      (simp_all add: Command_header_def utf8_val_def utf8_valid_ascii del: utf8_valid.simps)
  then show ?thesis
    using CollateralInquiry by (simp add: Command_from_unpacked_def)
next
  case (SubmitOrder tid sid pid order cid t)
  from assms(2) obtain ob where ob: "MsgPackOrderSerializer_serialize order = Inr ob"
    and p: "packb (Command_header cid t @ [
       (COMMAND, VStr SUBMIT_ORDER),
       (TRADER_ID, VStr (trader_id_value tid)),
       (STRATEGY_ID, VStr (strategy_id_value sid)),
       (POSITION_ID, VStr (position_id_value pid)),
       (ORDER, VBytes ob)]) = Inr bs" (is "packb ?pkg = _")
    unfolding SubmitOrder MsgPackCommandSerializer_serialize_def
    by (auto simp: bind_eq_Inr)
  have v: "valid_GUID cid" "valid_time t" and u: "utf8_valid (trader_id_value tid)"
    "utf8_valid (strategy_id_value sid)" "utf8_valid (position_id_value pid)"
    and l: "valid_leg E order"
    using assms(1) SubmitOrder by simp_all
  have "MsgPackCommandSerializer_deserialize E g bs
      = Command_from_unpacked E g (map command_item ?pkg) (Some SUBMIT_ORDER) cid t"
    using p v u header_utf8 [OF v]
    by (intro Command_decode)
      (simp_all add: Command_header_def utf8_val_def utf8_valid_ascii order_keys_def
        del: utf8_valid.simps)
  also have "\<dots> = Inr (decoded_Command g c)"
    unfolding Command_from_unpacked_def field_def getitem_def map_of_command_items
    by (simp add: SubmitOrder Command_header_def order_keys_def leg_roundtrip [OF l ob])
  finally show ?thesis .
next
  case (SubmitAtomicOrder tid sid pid ao cid t)
  from assms(2) obtain eb sb tb where
    eb: "MsgPackOrderSerializer_serialize (entry ao) = Inr eb"
    and sb: "MsgPackOrderSerializer_serialize (stop_loss ao) = Inr sb"
    and tb: "MsgPackOrderSerializer_serialize (take_profit ao) = Inr tb"
    and p: "packb (Command_header cid t @ [
       (COMMAND, VStr SUBMIT_ATOMIC_ORDER),
       (TRADER_ID, VStr (trader_id_value tid)),
       (STRATEGY_ID, VStr (strategy_id_value sid)),
       (POSITION_ID, VStr (position_id_value pid)),
       (ENTRY, VBytes eb),
       (STOP_LOSS, VBytes sb),
       (TAKE_PROFIT, VBytes tb)]) = Inr bs" (is "packb ?pkg = _")
    unfolding SubmitAtomicOrder MsgPackCommandSerializer_serialize_def
    by (auto simp: bind_eq_Inr)
  have v: "valid_GUID cid" "valid_time t" and u: "utf8_valid (trader_id_value tid)"
    "utf8_valid (strategy_id_value sid)" "utf8_valid (position_id_value pid)"
    and l: "valid_leg E (entry ao)" "valid_leg E (stop_loss ao)" "valid_leg E (take_profit ao)"
    using assms(1) SubmitAtomicOrder by simp_all
  have "MsgPackCommandSerializer_deserialize E g bs
      = Command_from_unpacked E g (map command_item ?pkg) (Some SUBMIT_ATOMIC_ORDER) cid t"
    using p v u header_utf8 [OF v]
    by (intro Command_decode)
      (simp_all add: Command_header_def utf8_val_def utf8_valid_ascii order_keys_def
        del: utf8_valid.simps)
  also have "\<dots> = Inr (decoded_Command g c)"
    unfolding Command_from_unpacked_def field_def getitem_def map_of_command_items
    by (simp add: SubmitAtomicOrder Command_header_def order_keys_def
        leg_roundtrip [OF l(1) eb] leg_roundtrip [OF l(2) sb] leg_roundtrip [OF l(3) tb])
  finally show ?thesis .
next
  case (ModifyOrder tid sid oid px cid t)
  let ?pkg = "Command_header cid t @ [
       (COMMAND, VStr MODIFY_ORDER),
       (TRADER_ID, VStr (trader_id_value tid)),
       (STRATEGY_ID, VStr (strategy_id_value sid)),
       (ORDER_ID, VStr (order_id_value oid)),
       (MODIFIED_PRICE, VStr (price_str px))]"
  have p: "packb ?pkg = Inr bs"
    using assms(2) ModifyOrder by (simp add: MsgPackCommandSerializer_serialize_def)
  have v: "valid_GUID cid" "valid_time t" and u: "utf8_valid (trader_id_value tid)"
    "utf8_valid (strategy_id_value sid)" "utf8_valid (order_id_value oid)"
    "utf8_valid (price_str px)" and d: "is_decimal (price_str px)"
    using assms(1) ModifyOrder by (simp_all add: valid_decimal_def)
  have "MsgPackCommandSerializer_deserialize E g bs
      = Command_from_unpacked E g (map command_item ?pkg) (Some MODIFY_ORDER) cid t"
    using p v u header_utf8 [OF v]
    by (intro Command_decode)
      (simp_all add: Command_header_def utf8_val_def utf8_valid_ascii order_keys_def
        del: utf8_valid.simps)
  also have "\<dots> = Inr (decoded_Command g c)"
    unfolding Command_from_unpacked_def field_def getitem_def map_of_command_items
    by (simp add: ModifyOrder Command_header_def order_keys_def new_decimal_PStr d)
  finally show ?thesis .
next
  case (CancelOrder tid sid oid reason cid t)
  let ?pkg = "Command_header cid t @ [
       (COMMAND, VStr CANCEL_ORDER),
       (TRADER_ID, VStr (trader_id_value tid)),
       (STRATEGY_ID, VStr (strategy_id_value sid)),
       (ORDER_ID, VStr (order_id_value oid)),
       (CANCEL_REASON, VStr (valid_string_value reason))]"
  have p: "packb ?pkg = Inr bs"
    using assms(2) CancelOrder by (simp add: MsgPackCommandSerializer_serialize_def)
  have v: "valid_GUID cid" "valid_time t" and u: "utf8_valid (trader_id_value tid)"
    "utf8_valid (strategy_id_value sid)" "utf8_valid (order_id_value oid)"
    "utf8_valid (valid_string_value reason)"
    using assms(1) CancelOrder by simp_all
  have "MsgPackCommandSerializer_deserialize E g bs
      = Command_from_unpacked E g (map command_item ?pkg) (Some CANCEL_ORDER) cid t"
    using p v u header_utf8 [OF v]
    by (intro Command_decode)
      (simp_all add: Command_header_def utf8_val_def utf8_valid_ascii order_keys_def
        del: utf8_valid.simps)
  also have "\<dots> = Inr (decoded_Command g c)"
    unfolding Command_from_unpacked_def field_def getitem_def map_of_command_items
    by (simp add: CancelOrder Command_header_def order_keys_def)
  finally show ?thesis .
qed

lemma Event_decode:
  assumes "packb pkg = Inr bs"
    and "distinct (map fst pkg)"
    and "\<forall>kv \<in> set pkg. utf8_valid (fst kv) \<and> utf8_val (snd kv)"
    and "map_of pkg TYPE_KEY = Some (VStr EVENT)"
    and "map_of pkg EVENT = Some (VStr tag)"
    and "map_of pkg EVENT_ID = Some (VStr (guid_value event_id))"
    and "map_of pkg EVENT_TIMESTAMP = Some (VStr (convert_datetime_to_string t))"
    and "valid_GUID event_id" and "valid_time t"
  shows "MsgPackEventSerializer_deserialize E bs
       = Event_from_unpacked E (map (unpacked_item False) pkg) (Some tag) event_id t"
proof -
  have ne: "bs \<noteq> []" using assms(1) by (rule packb_not_empty)
  have un: "unpackb False bs = Inr (PDict (map (unpacked_item False) pkg))"
    using unpackb_packb [OF assms(1,2), of False] assms(3) by simp
  have f: "field (map (unpacked_item False) pkg) TYPE_KEY str_var = Inr (Some EVENT)"
    "field (map (unpacked_item False) pkg) EVENT str_var = Inr (Some tag)"
    "field (map (unpacked_item False) pkg) EVENT_ID new_GUID = Inr event_id"
    "field (map (unpacked_item False) pkg) EVENT_TIMESTAMP convert_string_to_datetime = Inr t"
    using assms(8,9)
    by (simp_all add: field_unpacked [OF assms(4)] field_unpacked [OF assms(5)]
        field_unpacked [OF assms(6)] field_unpacked [OF assms(7)] GUID_roundtrip
        datetime_roundtrip)
  show ?thesis
    unfolding MsgPackEventSerializer_deserialize_def
    using ne by (simp add: Precondition_not_empty_def un f)
qed

lemma Event_package_keys: "distinct (map fst (Event_package e))"
  by (cases e) (simp_all add: Event_header_def)

lemma Event_package_utf8:
  "valid_Event E e \<Longrightarrow> \<forall>kv \<in> set (Event_package e). utf8_valid (fst kv) \<and> utf8_val (snd kv)"
  by (cases e)
    (simp_all add: Event_header_def utf8_val_def valid_GUID_def utf8_valid_datetime
      valid_name_def valid_decimal_def utf8_valid_ascii del: utf8_valid.simps)

lemma Event_package_header:
  "map_of (Event_package e) TYPE_KEY = Some (VStr EVENT)"
  "map_of (Event_package e) EVENT = Some (VStr (Event_class_name e))"
  "map_of (Event_package e) EVENT_ID = Some (VStr (guid_value (Event_id e)))"
  "map_of (Event_package e) EVENT_TIMESTAMP
     = Some (VStr (convert_datetime_to_string (Event_timestamp e)))"
  by (cases e; simp add: Event_header_def)+

lemma valid_Event_header:
  "valid_Event E e \<Longrightarrow> valid_GUID (Event_id e)"
  "valid_Event E e \<Longrightarrow> valid_time (Event_timestamp e)"
  by (cases e; simp)+

lemma Event_unpacked:
  assumes "valid_Event E e" and "MsgPackEventSerializer_serialize e = Inr bs"
  shows "MsgPackEventSerializer_deserialize E bs
       = Event_from_unpacked E (map (unpacked_item False) (Event_package e))
           (Some (Event_class_name e)) (Event_id e) (Event_timestamp e)"
  using assms(2) Event_package_keys Event_package_utf8 [OF assms(1)] Event_package_header
    valid_Event_header [OF assms(1)]
  unfolding MsgPackEventSerializer_serialize_def
  by (intro Event_decode)

lemma Event_from_package:
  assumes "valid_Event E e" and "\<not> is_OrderInitialized e"
  shows "Event_from_unpacked E (map (unpacked_item False) (Event_package e))
           (Some (Event_class_name e)) (Event_id e) (Event_timestamp e) = Inr (decoded_Event e)"
  using assms
  unfolding Event_from_unpacked_def field_def getitem_unpacked
  by (cases e)
    (simp_all add: Event_header_def enum_getitem_PStr new_decimal_PStr datetime_roundtrip
      new_Quantity_def parse_symbol_def valid_name_def valid_decimal_def)

lemma OrderInitialized_from_package:
  assumes "is_OrderInitialized e"
  shows "Event_from_unpacked E d (Some (Event_class_name e)) i t
       = Inl (ValueError ''Cannot deserialize event (unrecognized event).'')"
  using assms by (cases e) (simp_all add: Event_from_unpacked_def)

lemma event_roundtrip:
  assumes "valid_Event E e" and "\<not> is_OrderInitialized e"
    and "MsgPackEventSerializer_serialize e = Inr bs"
  shows "MsgPackEventSerializer_deserialize E bs = Inr (decoded_Event e)"
  using Event_unpacked [OF assms(1,3)] Event_from_package [OF assms(1,2)] by simp

lemma OrderInitialized_rejected:
  assumes "valid_Event E e" and "is_OrderInitialized e"
    and "MsgPackEventSerializer_serialize e = Inr bs"
  shows "MsgPackEventSerializer_deserialize E bs
       = Inl (ValueError ''Cannot deserialize event (unrecognized event).'')"
  using Event_unpacked [OF assms(1,3)] OrderInitialized_from_package [OF assms(2)] by simp

lemma pack_raw_ok:
  assumes "length s \<le> 0xffffffff"
  shows "\<exists>bs. pack_raw s = Inr bs \<and> length bs \<le> length s + 5"
  using assms unfolding pack_raw_def Let_def by auto

lemma pack_int_ok:
  assumes "- 0x8000000000000000 \<le> i" and "i \<le> 0xffffffffffffffff"
  shows "\<exists>bs. pack_int i = Inr bs \<and> length bs \<le> 9"
  using assms unfolding pack_int_def by auto

lemma pack_val_ok:
  assumes "val_ok v"
  shows "\<exists>bs. pack_val v = Inr bs \<and> length bs \<le> val_size v"
proof (cases v)
  case (VInt i)
  then show ?thesis using assms pack_int_ok [of i] by auto
next
  case (VStr s)
  then show ?thesis using assms pack_raw_ok [of s] by auto
next
  case (VBytes b)
  then show ?thesis using assms pack_raw_ok [of b] by auto
qed

lemma pack_items_ok:
  assumes "list_all (\<lambda>kv. length (fst kv) \<le> 0xffffffff \<and> val_ok (snd kv)) kvs"
  shows "\<exists>bs. pack_items kvs = Inr bs
     \<and> length bs \<le> sum_list (map (\<lambda>kv. length (fst kv) + 5 + val_size (snd kv)) kvs)"
  using assms
proof (induction kvs)
  case Nil
  then show ?case by simp
next
  case (Cons kv kvs)
  obtain k v where kv: "kv = (k, v)" by (cases kv)
  from Cons.prems kv obtain a where a: "pack_raw k = Inr a" "length a \<le> length k + 5"
    using pack_raw_ok [of k] by auto
  from Cons.prems kv obtain b where b: "pack_val v = Inr b" "length b \<le> val_size v"
    using pack_val_ok [of v] by auto
  from Cons obtain c where c: "pack_items kvs = Inr c"
    "length c \<le> sum_list (map (\<lambda>kv. length (fst kv) + 5 + val_size (snd kv)) kvs)"
    by auto
  show ?case using a b c by (simp add: kv)
qed

lemma packb_ok:
  assumes "packable pkg"
  obtains bs where "packb pkg = Inr bs" and "length bs \<le> package_size pkg"
proof -
  from assms obtain b where b: "pack_items pkg = Inr b"
    "length b \<le> sum_list (map (\<lambda>kv. length (fst kv) + 5 + val_size (snd kv)) pkg)"
    using pack_items_ok [of pkg] by (auto simp: packable_def)
  have "\<exists>h. pack_map_header (length pkg) = Inr h \<and> length h \<le> 5"
    using assms unfolding packable_def pack_map_header_def by auto
  then obtain h where h: "pack_map_header (length pkg) = Inr h" "length h \<le> 5"
    by blast
  show ?thesis
    using that [of "h @ b"] b h by (simp add: packb_def package_size_def)
qed

lemma valid_guid0: "valid_GUID guid0"
  by (simp add: valid_GUID_def guid0_def is_uuid_def is_hex_def is_digit_def lower_def)

lemma valid_time0: "valid_time time0"
  by (simp add: valid_time_def time0_def is_timestamp_def is_digit_def)

lemma valid_time_None [simp]: "valid_time None"
  by (simp add: valid_time_def)

lemma valid_event0: "valid_Event E0 event0"
  by (simp add: event0_def valid_guid0 valid_time0 valid_name_def valid_decimal_def E0_def
      is_decimal_def is_digit_def)

lemma packable_event0: "packable (Event_package event0)"
  by (simp add: event0_def packable_def Event_header_def guid0_def time0_def
      convert_datetime_to_string_def)

text \<open>
  C6. \<open>deserialize\<close>, applied to a well-formed encoded \<open>OrderInitialized\<close> message,
  returns an \<open>OrderInitialized\<close> event. It does not: \<open>serialize\<close> writes the variant, but
  the chain of tests in \<open>deserialize\<close> has no branch for it, so the encoding of the sample
  event is rejected as an unrecognized event.
\<close>

theorem OrderInitialized_not_decoded:
  "\<not> isl (MsgPackEventSerializer_serialize event0)
   \<and> bind (MsgPackEventSerializer_serialize event0) (MsgPackEventSerializer_deserialize E0)
     = Inl (ValueError ''Cannot deserialize event (unrecognized event).'')"
proof -
  obtain bs where bs: "MsgPackEventSerializer_serialize event0 = Inr bs"
    using packb_ok [OF packable_event0] by (auto simp: MsgPackEventSerializer_serialize_def)
  have "is_OrderInitialized event0" by (simp add: event0_def)
  then have "MsgPackEventSerializer_deserialize E0 bs
      = Inl (ValueError ''Cannot deserialize event (unrecognized event).'')"
    using valid_event0 bs by (intro OrderInitialized_rejected)
  then show ?thesis by (simp add: bs)
qed

lemma utf8_guid0: "utf8_valid (guid_value guid0)"
  using valid_guid0 by (simp add: valid_GUID_def)

lemma valid_account_event: "valid_Event E0 (account_event (ValidString ''MARGIN_CALL''))"
  by (simp add: account_event_def valid_guid0 valid_time0 valid_name_def valid_decimal_def
      E0_def is_decimal_def is_digit_def)

lemma packable_account_event: "packable (Event_package (account_event (ValidString ''MARGIN_CALL'')))"
  by (simp add: account_event_def packable_def Event_header_def guid0_def time0_def
      convert_datetime_to_string_def)

text \<open>
  C2. Deserializing the serialization of an \<open>AccountEvent\<close> yields the margin call status
  that was encoded. It does not: \<open>serialize\<close> writes the status under \<open>MarginCallStatus\<close>,
  \<open>deserialize\<close> never reads that field and builds the event with the constant \<open>NONE\<close>, so
  the status \<open>MARGIN_CALL\<close> of the sample event comes back as \<open>NONE\<close>.
\<close>

theorem margin_call_status_discarded:
  "\<not> isl (MsgPackEventSerializer_serialize (account_event (ValidString ''MARGIN_CALL'')))
   \<and> bind (MsgPackEventSerializer_serialize (account_event (ValidString ''MARGIN_CALL'')))
        (MsgPackEventSerializer_deserialize E0)
     = Inr (account_event (ValidString NONE))"
proof -
  let ?e = "account_event (ValidString ''MARGIN_CALL'')"
  obtain bs where bs: "MsgPackEventSerializer_serialize ?e = Inr bs"
    using packb_ok [OF packable_account_event]
    by (auto simp: MsgPackEventSerializer_serialize_def)
  have "\<not> is_OrderInitialized ?e" by (simp add: account_event_def)
  then have "MsgPackEventSerializer_deserialize E0 bs = Inr (decoded_Event ?e)"
    using valid_account_event bs by (intro event_roundtrip)
  then show ?thesis unfolding bs by (simp add: account_event_def)
qed

text \<open>
  C1. For every valid event of the closed variant set, \<open>deserialize (serialize e)\<close> is an
  event equal to \<open>e\<close>. It is (lemma \<open>event_roundtrip\<close>) for ten of the twelve variants; it
  is not for \<open>OrderInitialized\<close>, which is rejected, nor for \<open>AccountEvent\<close>, whose margin
  call status is replaced.
\<close>

theorem event_roundtrip_fails:
  "bind (MsgPackEventSerializer_serialize event0) (MsgPackEventSerializer_deserialize E0)
     \<noteq> Inr event0
   \<and> bind (MsgPackEventSerializer_serialize (account_event (ValidString ''MARGIN_CALL'')))
        (MsgPackEventSerializer_deserialize E0)
     \<noteq> Inr (account_event (ValidString ''MARGIN_CALL''))"
proof -
  obtain bs where bs: "MsgPackEventSerializer_serialize event0 = Inr bs"
    using packb_ok [OF packable_event0] by (auto simp: MsgPackEventSerializer_serialize_def)
  have "is_OrderInitialized event0" by (simp add: event0_def)
  then have 1: "MsgPackEventSerializer_deserialize E0 bs
      = Inl (ValueError ''Cannot deserialize event (unrecognized event).'')"
    using valid_event0 bs by (intro OrderInitialized_rejected)
  let ?e = "account_event (ValidString ''MARGIN_CALL'')"
  obtain cs where cs: "MsgPackEventSerializer_serialize ?e = Inr cs"
    using packb_ok [OF packable_account_event]
    by (auto simp: MsgPackEventSerializer_serialize_def)
  have "\<not> is_OrderInitialized ?e" by (simp add: account_event_def)
  then have 2: "MsgPackEventSerializer_deserialize E0 cs = Inr (decoded_Event ?e)"
    using valid_account_event cs by (intro event_roundtrip)
  show ?thesis unfolding bs cs using 1 2 by (simp add: account_event_def)
qed

lemma valid_order0: "valid_Order E0 order0"
  by (simp add: order0_def valid_Order_def utf8_guid0 valid_time0 valid_name_def
      valid_decimal_def E0_def is_decimal_def is_digit_def)

lemma packable_order0: "packable (Order_package order0)"
  by (simp add: order0_def packable_def Order_package_def guid0_def time0_def
      convert_datetime_to_string_def convert_price_to_string_def convert_label_to_string_def)

lemma order0_packs:
  obtains ob where "MsgPackOrderSerializer_serialize (Some order0) = Inr ob"
    and "length ob \<le> 1000"
proof -
  have "package_size (Order_package order0) \<le> 1000"
    by (simp add: order0_def package_size_def Order_package_def guid0_def time0_def
      convert_datetime_to_string_def convert_price_to_string_def convert_label_to_string_def)
  then show ?thesis
    using packb_ok [OF packable_order0] that
    by (fastforce simp: MsgPackOrderSerializer_serialize_def)
qed

lemma submit_order_packs:
  obtains bs where "MsgPackCommandSerializer_serialize (submit_order order0) = Inr bs"
proof -
  obtain ob where ob: "MsgPackOrderSerializer_serialize (Some order0) = Inr ob"
    and len: "length ob \<le> 1000"
    by (rule order0_packs)
  let ?pkg = "Command_header guid0 time0 @ [
       (COMMAND, VStr SUBMIT_ORDER),
       (TRADER_ID, VStr ''Trader-001''),
       (STRATEGY_ID, VStr ''S1''),
       (POSITION_ID, VStr ''P-123456''),
       (ORDER, VBytes ob)]"
  have "packable ?pkg"
    using len by (simp add: packable_def Command_header_def guid0_def time0_def
      convert_datetime_to_string_def)
  then obtain bs where "packb ?pkg = Inr bs" by (rule packb_ok)
  then have "MsgPackCommandSerializer_serialize (submit_order order0) = Inr bs"
    by (simp add: MsgPackCommandSerializer_serialize_def submit_order_def ob)
  then show ?thesis by (rule that)
qed

lemma valid_submit_order: "valid_Command E0 (submit_order order0)"
  by (simp add: submit_order_def valid_guid0 valid_time0 valid_leg_def valid_order0)

text \<open>
  C5. For every valid command, including its nested orders, \<open>deserialize (serialize c)\<close> is
  a command equal to \<open>c\<close>, field for field. Everything is reproduced (lemma
  \<open>command_roundtrip\<close>) but the \<open>init_id\<close> of a nested order: \<open>serialize\<close> writes it under
  \<open>InitId\<close>, \<open>deserialize\<close> never reads it, and the decoded order carries the identifier its
  constructor generated.
\<close>

theorem order_init_id_not_reproduced:
  "\<not> isl (MsgPackCommandSerializer_serialize (submit_order order0))
   \<and> bind (MsgPackCommandSerializer_serialize (submit_order order0))
        (MsgPackCommandSerializer_deserialize E0 (\<lambda>i. guid1))
     = Inr (submit_order (order0\<lparr>init_id := guid1\<rparr>))
   \<and> submit_order (order0\<lparr>init_id := guid1\<rparr>) \<noteq> submit_order order0"
proof -
  obtain bs where bs: "MsgPackCommandSerializer_serialize (submit_order order0) = Inr bs"
    by (rule submit_order_packs)
  have "MsgPackCommandSerializer_deserialize E0 (\<lambda>i. guid1) bs
      = Inr (decoded_Command (\<lambda>i. guid1) (submit_order order0))"
    using valid_submit_order bs by (rule command_roundtrip)
  moreover have "guid1 \<noteq> guid0" by (simp add: guid0_def guid1_def)
  ultimately show ?thesis
    unfolding bs by (simp add: submit_order_def decoded_Order_def order0_def)
qed

lemma decoded_Order_None: "decoded_Order g leg = None \<longleftrightarrow> leg = None"
  by (simp add: decoded_Order_def)

text \<open>
  C4. \<open>serialize\<close> of the null order is the encoding of an empty map, \<open>deserialize\<close> of
  that encoding is \<open>None\<close>, and the decoded form of a \<open>SubmitAtomicOrder\<close> command has its
  stop-loss leg absent exactly when the encoded command has, and likewise its take-profit
  leg: an absent leg does not come back as an order.
\<close>

theorem null_order_law:
  assumes "valid_Command E (SubmitAtomicOrder trader_id strategy_id position_id atomic_order
      command_id command_timestamp)"
    and "MsgPackCommandSerializer_serialize (SubmitAtomicOrder trader_id strategy_id position_id
      atomic_order command_id command_timestamp) = Inr command_bytes"
  shows "MsgPackOrderSerializer_serialize None = Inr [CHR 0x80]
    \<and> unpackb raw [CHR 0x80] = Inr (PDict [])
    \<and> MsgPackOrderSerializer_deserialize E g [CHR 0x80] = Inr None
    \<and> (\<exists>entry' stop_loss' take_profit'.
          MsgPackCommandSerializer_deserialize E new_init_id command_bytes
            = Inr (SubmitAtomicOrder trader_id strategy_id position_id
                (AtomicOrder entry' stop_loss' take_profit') command_id command_timestamp)
          \<and> (stop_loss' = None \<longleftrightarrow> stop_loss atomic_order = None)
          \<and> (take_profit' = None \<longleftrightarrow> take_profit atomic_order = None))"
proof -
  have "MsgPackCommandSerializer_deserialize E new_init_id command_bytes
      = Inr (decoded_Command new_init_id (SubmitAtomicOrder trader_id strategy_id position_id
          atomic_order command_id command_timestamp))"
    using assms by (rule command_roundtrip)
  then show ?thesis
    by (simp add: MsgPackOrderSerializer_serialize_def packb_empty unpackb_null
        null_order_decodes decoded_Order_None)
qed

lemma submit_atomic_order_packs:
  obtains bs where
    "MsgPackCommandSerializer_serialize (submit_atomic_order (AtomicOrder (Some order0) None None))
       = Inr bs"
proof -
  obtain ob where ob: "MsgPackOrderSerializer_serialize (Some order0) = Inr ob"
    and len: "length ob \<le> 1000"
    by (rule order0_packs)
  have nb: "MsgPackOrderSerializer_serialize None = Inr [CHR 0x80]"
    by (simp add: MsgPackOrderSerializer_serialize_def packb_empty)
  let ?pkg = "Command_header guid0 time0 @ [
       (COMMAND, VStr SUBMIT_ATOMIC_ORDER),
       (TRADER_ID, VStr ''Trader-001''),
       (STRATEGY_ID, VStr ''S1''),
       (POSITION_ID, VStr ''P-123456''),
       (ENTRY, VBytes ob),
       (STOP_LOSS, VBytes [CHR 0x80]),
       (TAKE_PROFIT, VBytes [CHR 0x80])]"
  have "packable ?pkg"
    using len by (simp add: packable_def Command_header_def guid0_def time0_def
      convert_datetime_to_string_def)
  then obtain bs where "packb ?pkg = Inr bs" by (rule packb_ok)
  then have "MsgPackCommandSerializer_serialize
      (submit_atomic_order (AtomicOrder (Some order0) None None)) = Inr bs"
    by (simp add: MsgPackCommandSerializer_serialize_def submit_atomic_order_def ob nb)
  then show ?thesis by (rule that)
qed

text \<open>The law at the sample atomic order with an entry and no other leg.\<close>

theorem null_order_law_witness:
  "\<not> isl (MsgPackCommandSerializer_serialize
       (submit_atomic_order (AtomicOrder (Some order0) None None)))
   \<and> (case bind (MsgPackCommandSerializer_serialize
                 (submit_atomic_order (AtomicOrder (Some order0) None None)))
             (MsgPackCommandSerializer_deserialize E0 (\<lambda>i. guid1)) of
        Inr (SubmitAtomicOrder trader_id strategy_id position_id atomic_order command_id
               command_timestamp) \<Rightarrow>
          stop_loss atomic_order = None \<and> take_profit atomic_order = None
      | _ \<Rightarrow> False)"
proof -
  let ?c = "submit_atomic_order (AtomicOrder (Some order0) None None)"
  obtain bs where bs: "MsgPackCommandSerializer_serialize ?c = Inr bs"
    by (rule submit_atomic_order_packs)
  have v: "valid_Command E0 ?c"
    by (simp add: submit_atomic_order_def valid_guid0 valid_time0 valid_leg_def valid_order0)
  show ?thesis
    using null_order_law [OF v [unfolded submit_atomic_order_def]
        bs [unfolded submit_atomic_order_def], of True guid0 "\<lambda>i. guid1"]
    unfolding bs by auto
qed





lemma isl_bind_left: "isl m \<Longrightarrow> isl (bind m f)"
  by (cases m) simp_all















end
